theory Spec2Isabelle
  imports Complex_Main
begin

section \<open>JavaScript values\<close>

text \<open>
  The two page scripts (\<^verbatim>\<open>web/classification/script.js\<close> and
  \<^verbatim>\<open>web/augmentation/augmentation-script.js\<close>) inspect the payload returned by the
  Gradio client with truthiness tests and property reads. A payload is a parsed JSON
  value. A number is represented by the rational it denotes (a JSON payload carries no
  NaN); an object is the list of its own properties, with distinct keys, in the order in
  which \<^verbatim>\<open>Object.entries\<close> enumerates them (the insertion order, for keys that are
  not array indices).
\<close>

datatype jsval =
    JUndefined
  | JNull
  | JBool bool
  | JNum rat
  | JStr string
  | JArr "jsval list"
  | JObj "(string \<times> jsval) list"

text \<open>ToBoolean, as used by \<^verbatim>\<open>if (v)\<close>, \<^verbatim>\<open>!v\<close>, \<^verbatim>\<open>a && b\<close> and \<^verbatim>\<open>a || b\<close>.\<close>

fun truthy :: "jsval \<Rightarrow> bool" where
  "truthy JUndefined = False"
| "truthy JNull = False"
| "truthy (JBool b) = b"
| "truthy (JNum x) = (x \<noteq> 0)"
| "truthy (JStr s) = (s \<noteq> [])"
| "truthy (JArr xs) = True"
| "truthy (JObj kvs) = True"

text \<open>
  The property read \<^verbatim>\<open>v.k\<close> for the names the scripts read from a payload
  (\<^verbatim>\<open>data\<close>, \<^verbatim>\<open>error\<close>, \<^verbatim>\<open>class\<close>, \<^verbatim>\<open>confidence\<close>, \<^verbatim>\<open>probabilities\<close>,
  \<^verbatim>\<open>url\<close>, \<^verbatim>\<open>path\<close>): none of them is a member of a built-in prototype, so the read
  yields the own property of an object and \<^verbatim>\<open>undefined\<close> on a string, number, boolean or
  array. The scripts guard every read so that it is never made on
  \<^verbatim>\<open>null\<close> or \<^verbatim>\<open>undefined\<close>.
\<close>

fun js_get :: "jsval \<Rightarrow> string \<Rightarrow> jsval" where
  "js_get (JObj kvs) k = (case map_of kvs k of Some v \<Rightarrow> v | None \<Rightarrow> JUndefined)"
| "js_get v k = JUndefined"

text \<open>The indexed read \<^verbatim>\<open>xs[i]\<close> on an array: \<^verbatim>\<open>undefined\<close> out of range.\<close>

definition elem :: "jsval list \<Rightarrow> nat \<Rightarrow> jsval" where
  "elem xs i = (if i < length xs then xs ! i else JUndefined)"

text \<open>
  The read \<^verbatim>\<open>v[0]\<close> on any value that is neither \<^verbatim>\<open>null\<close> nor \<^verbatim>\<open>undefined\<close>:
  the first element of an array, the first character of a string, the property
  \<^verbatim>\<open>"0"\<close> of an object.
\<close>

fun index0 :: "jsval \<Rightarrow> jsval" where
  "index0 (JArr xs) = elem xs 0"
| "index0 (JStr s) = (case s of [] \<Rightarrow> JUndefined | c # cs \<Rightarrow> JStr [c])"
| "index0 (JObj kvs) = js_get (JObj kvs) ''0''"
| "index0 v = JUndefined"

text \<open>The read \<^verbatim>\<open>v.length\<close>.\<close>

fun js_length :: "jsval \<Rightarrow> jsval" where
  "js_length (JArr xs) = JNum (of_nat (length xs))"
| "js_length (JStr s) = JNum (of_nat (length s))"
| "js_length (JObj kvs) = js_get (JObj kvs) ''length''"
| "js_length v = JUndefined"

section \<open>Numbers\<close>

text \<open>
  A JavaScript number is an IEEE 754 binary64 value. Every arithmetic result is the exact
  result rounded to the nearest representable value, ties to even
  (\<open>nearest_double\<close>: 53 significant bits, exponent no smaller than -1022, so that the
  subnormal range is covered). Overflow to Infinity is not represented: the only results
  the scripts print are printed by \<open>percentage\<close>, which is undefined from \<open>10^21\<close> on.
\<close>

text \<open>The number of binary digits of a positive integer.\<close>

function bitlen :: "int \<Rightarrow> nat" where
  "bitlen n = (if n \<le> 0 then 0 else Suc (bitlen (n div 2)))"
  by pat_completeness auto
termination
  by (relation "measure nat") auto

declare bitlen.simps [simp del]

text \<open>\<open>ilog2 a\<close> is the integer \<open>e\<close> with \<open>2^e \<le> a < 2^(e+1)\<close>, for \<open>0 < a\<close>.\<close>

definition ilog2 :: "rat \<Rightarrow> int" where
  "ilog2 a = (if 1 \<le> a then int (bitlen \<lfloor>a\<rfloor>) - 1
              else - int (bitlen (\<lceil>1 / a\<rceil> - 1)))"

definition pow2 :: "int \<Rightarrow> rat" where
  "pow2 e = (if 0 \<le> e then 2 ^ nat e else 1 / 2 ^ nat (- e))"

definition round_half_even :: "rat \<Rightarrow> int" where
  "round_half_even q =
     (let f = \<lfloor>q\<rfloor>; r = q - of_int f
      in if r < 1 / 2 then f else if 1 / 2 < r then f + 1 else if even f then f else f + 1)"

definition nearest_double :: "rat \<Rightarrow> rat" where
  "nearest_double x =
     (if x = 0 then 0
      else let a = \<bar>x\<bar>; e = max (ilog2 a) (- 1022); u = pow2 (e - 52)
           in sgn x * of_int (round_half_even (a / u)) * u)"

text \<open>
  Every binary64 value is an integer multiple of \<open>2^-1074\<close>, the smallest positive one.
\<close>

definition on_grid :: "rat \<Rightarrow> bool" where
  "on_grid x = (\<exists>k::int. x = of_int k * pow2 (- 1074))"

text \<open>The number a decimal literal of a JSON payload denotes, e.g. \<^verbatim>\<open>0.97\<close>.\<close>

definition js_literal :: "rat \<Rightarrow> jsval" where
  "js_literal q = JNum (nearest_double q)"

text \<open>The products \<^verbatim>\<open>a * b\<close> and differences \<^verbatim>\<open>b - a\<close> of two numbers.\<close>

definition js_times :: "rat \<Rightarrow> rat \<Rightarrow> rat" where
  "js_times a b = nearest_double (a * b)"

definition js_minus :: "rat \<Rightarrow> rat \<Rightarrow> rat" where
  "js_minus b a = nearest_double (b - a)"

text \<open>The decimal digits of a non-negative integer.\<close>

function digits_of :: "int \<Rightarrow> string" where
  "digits_of n =
     (if n < 10 then [''0123456789'' ! nat n]
      else digits_of (n div 10) @ [''0123456789'' ! nat (n mod 10)])"
  by pat_completeness auto
termination
  by (relation "measure nat") auto

declare digits_of.simps [simp del]

text \<open>
  \<^verbatim>\<open>Number.prototype.toFixed(d)\<close> on a finite \<open>x\<close> with \<open>\<bar>x\<bar> < 10^21\<close>: let \<open>n\<close> be
  the integer for which \<open>n / 10^d - \<bar>x\<bar>\<close> is closest to zero, the larger one of two;
  print \<open>n\<close> with at least \<open>d + 1\<close> digits and a point before the last \<open>d\<close>, after a
  minus sign when \<open>x < 0\<close>.
\<close>

definition toFixed :: "nat \<Rightarrow> rat \<Rightarrow> string" where
  "toFixed d x =
     (let n = \<lfloor>\<bar>x\<bar> * 10 ^ d + 1 / 2\<rfloor>;
          m = digits_of n;
          m' = replicate (Suc d - length m) CHR ''0'' @ m;
          k = length m' - d
      in (if x < 0 then ''-'' else '''') @
         (if d = 0 then m' else take k m' @ ''.'' @ drop k m'))"

text \<open>
  \<^verbatim>\<open>(v * 100).toFixed(d)\<close>. Only a number \<open>v\<close> is embedded: on any other value the
  script applies the runtime's ToNumber coercion, which is not modelled, and from
  \<open>10^21\<close> on \<^verbatim>\<open>toFixed\<close> switches to exponent notation.
\<close>

definition percentage :: "nat \<Rightarrow> jsval \<Rightarrow> string option" where
  "percentage d v =
     (case v of
        JNum x \<Rightarrow>
          (let p = js_times x 100 in if \<bar>p\<bar> < 10 ^ 21 then Some (toFixed d p) else None)
      | _ \<Rightarrow> None)"

section \<open>Strings\<close>

text \<open>\<^verbatim>\<open>s.split(".")\<close>: the segments between the separators; one empty segment for \<^verbatim>\<open>""\<close>.\<close>

fun split_at :: "char \<Rightarrow> string \<Rightarrow> string list" where
  "split_at c [] = [[]]"
| "split_at c (x # xs) =
     (if x = c then [] # split_at c xs
      else (case split_at c xs of [] \<Rightarrow> [[x]] | w # ws \<Rightarrow> (x # w) # ws))"

text \<open>\<^verbatim>\<open>toUpperCase\<close> on one character. The strings of the model are ASCII.\<close>

definition to_upper :: "char \<Rightarrow> char" where
  "to_upper c =
     (let n = (of_char c :: nat) in if 97 \<le> n \<and> n \<le> 122 then char_of (n - 32) else c)"

text \<open>\<^verbatim>\<open>word.charAt(0).toUpperCase() + word.slice(1)\<close>\<close>

definition capitalize :: "string \<Rightarrow> string" where
  "capitalize w = (case w of [] \<Rightarrow> [] | c # cs \<Rightarrow> to_upper c # cs)"

text \<open>\<^verbatim>\<open>ws.join(" ")\<close>\<close>

fun join_space :: "string list \<Rightarrow> string" where
  "join_space [] = []"
| "join_space [w] = w"
| "join_space (w # ws) = w @ '' '' @ join_space ws"

definition formatClassName :: "string \<Rightarrow> string" where
  "formatClassName className = join_space (map capitalize (split_at CHR ''.'' className))"

section \<open>Errors and notifications\<close>

text \<open>
  The scripts raise plain \<^verbatim>\<open>Error\<close> objects and report them through \<^verbatim>\<open>showError\<close>.
  Each raise site is a constructor:
  \<^item> \<open>MalformedResponse NoValidResponse\<close>: \<^verbatim>\<open>throw new Error("No valid response from Gradio API")\<close>;
  \<^item> \<open>MalformedResponse InvalidFormat\<close>: \<^verbatim>\<open>throw new Error("Invalid response format from API")\<close>;
  \<^item> \<open>MalformedResponse (InvalidItemCount n)\<close>: the augmentation script's
    \<^verbatim>\<open>throw new Error(`Invalid response format - got ${result.data.length} items, expected at least 1`)\<close>,
    with \<open>n\<close> the value of \<^verbatim>\<open>result.data.length\<close>;
  \<^item> \<open>RemoteError e\<close>: \<^verbatim>\<open>throw new Error(apiResult.error)\<close>, with \<open>e\<close> the error field;
  \<^item> \<open>TypeError x\<close>: the runtime's TypeError when \<open>x\<close> is called on a value that has no
    such method;
  \<^item> \<open>Rejected m\<close>: a promise of the client library rejected with an error of
    message \<open>m\<close>;
  \<^item> \<open>ReadFailed\<close>: \<^verbatim>\<open>fileToBlob\<close> rejected (\<^verbatim>\<open>reader.onerror = reject\<close>) with the
    reader's error event, which has no \<^verbatim>\<open>message\<close>.
\<close>

datatype reason = NoValidResponse | InvalidFormat | InvalidItemCount jsval

datatype failure =
    MalformedResponse reason
  | RemoteError jsval
  | TypeError string
  | Rejected string
  | ReadFailed

text \<open>
  The calls of \<^verbatim>\<open>showError\<close>. The notification shows
  \<^item> \<open>InvalidFileType\<close>: "Please upload a valid image file (PNG, JPG, JPEG)"
    (augmentation: "Please select a valid image file (PNG, JPG, JPEG)");
  \<^item> \<open>FileTooLarge\<close>: "File size too large. Please upload an image smaller than 10MB.";
  \<^item> \<open>NoImageSelected\<close>: "No image selected.";
  \<^item> \<open>ConnectionUnavailable\<close>: "Failed to connect to the AI service. Please refresh the
    page and try again.";
  \<^item> \<open>RequestFailed e\<close>: the text derived from the message of the error \<open>e\<close> caught by
    the request's \<^verbatim>\<open>catch\<close> block.
\<close>

datatype notice =
    InvalidFileType
  | FileTooLarge
  | NoImageSelected
  | ConnectionUnavailable
  | RequestFailed failure

section \<open>The state of a page\<close>

text \<open>A \<^verbatim>\<open>File\<close>: its \<^verbatim>\<open>name\<close>, \<^verbatim>\<open>type\<close> and \<^verbatim>\<open>size\<close> in bytes.\<close>

record image_file =
  file_name :: string
  file_type :: string
  file_size :: nat

text \<open>
  The fields and DOM elements both page classes have. \<open>reading\<close> holds the files whose
  preview read (\<^verbatim>\<open>reader.readAsDataURL\<close>) has started and not yet completed;
  \<open>pending\<close> counts the invocations of the request method that are suspended at an
  \<^verbatim>\<open>await\<close>. \<open>notifications\<close> are the notification elements added to the document.
\<close>

record page =
  gradioClient :: "string option"
  currentImage :: "image_file option"
  previewImg_src :: "image_file option"
  imagePreview_display :: string
  imageInfo :: "image_file option"
  reading :: "image_file list"
  loadingState_display :: string
  resultsContent_display :: string
  emptyState_display :: string
  status_text :: string
  status_type :: string
  notifications :: "notice list"
  pending :: nat

text \<open>What the environment does during one request.\<close>

record env =
  factory_at :: "nat \<Rightarrow> bool"
  connect_ok :: bool
  read_ok :: bool
  predict :: "string + jsval"

text \<open>
  \<open>factory_at env k\<close>: \<^verbatim>\<open>window.GradioClient\<close> is set at the check made after \<open>k\<close>
  sleeps of 100 ms. \<open>connect_ok\<close>: \<^verbatim>\<open>GradioClient.connect\<close> resolves.
  \<open>read_ok\<close>: the file read of \<^verbatim>\<open>fileToBlob\<close> succeeds.
  \<open>predict\<close>: the message with which \<^verbatim>\<open>gradioClient.predict\<close> rejects, or the
  result it resolves with.
\<close>

definition updateStatus :: "string \<Rightarrow> string \<Rightarrow> 'a page_scheme \<Rightarrow> 'a page_scheme" where
  "updateStatus message type s = s\<lparr>status_text := message, status_type := type\<rparr>"

text \<open>
  The polling loop of \<^verbatim>\<open>initializeGradioClient\<close> (the same in both scripts):
  \<^verbatim>\<open>
  let attempts = 0;
  while (!window.GradioClient && attempts < 50) {
    await new Promise((resolve) => setTimeout(resolve, 100));
    attempts++;
  }
  \<close>
  The result is the value of \<^verbatim>\<open>attempts\<close> when the loop ends.
\<close>

function poll :: "(nat \<Rightarrow> bool) \<Rightarrow> nat \<Rightarrow> nat" where
  "poll avail attempts =
     (if \<not> avail attempts \<and> attempts < 50 then poll avail (Suc attempts) else attempts)"
  by pat_completeness auto
termination
  by (relation "measure (\<lambda>(avail, attempts). 50 - attempts)") auto

declare poll.simps [simp del]

text \<open>The time the loop has slept, in milliseconds.\<close>

definition poll_wait_ms :: "(nat \<Rightarrow> bool) \<Rightarrow> nat" where
  "poll_wait_ms avail = 100 * poll avail 0"

text \<open>
  The outcome of the \<^verbatim>\<open>try\<close> block of \<^verbatim>\<open>initializeGradioClient\<close>: it raises
  "Gradio client not loaded" when the factory is still missing after the loop, and
  otherwise awaits \<^verbatim>\<open>window.GradioClient.connect(this.spaceUrl)\<close>.
\<close>

definition connects :: "env \<Rightarrow> bool" where
  "connects e = (factory_at e (poll (factory_at e) 0) \<and> connect_ok e)"

section \<open>The classification page\<close>

text \<open>
  The emoji \<^verbatim>\<open>getClassIcon\<close> returns: a red circle, an orange circle, a check mark, a
  yellow circle, and the target used for an unknown class.
\<close>

datatype icon = RedCircle | OrangeCircle | CheckMark | YellowCircle | Target

text \<open>One element appended to \<^verbatim>\<open>probabilityBars\<close>, and the configuration of the chart.\<close>

record bar =
  bar_icon :: "icon option"
  bar_name :: string
  bar_percentage :: string
  bar_color :: "string option"

record doughnut =
  labels :: "string list"
  chart_data :: "string list"
  backgroundColor :: "string option list"
  borderColor :: "string option list"

text \<open>
  \<^verbatim>\<open>class LungTumorClassifier\<close>: the shared fields, the chart, the submit button
  \<^verbatim>\<open>analyzeBtn\<close>, the upload area and the elements of the result panel.
\<close>

record cpage = page +
  chart :: "doughnut option"
  analyzeBtn_disabled :: bool
  uploadArea_display :: string
  resultClass :: string
  resultConfidence :: string
  resultIcon :: "icon option"
  probabilityBars :: "bar list"

definition spaceUrl :: string where
  "spaceUrl = ''Bellahouell/lung_predict_api''"

definition showLoadingState :: "'a page_scheme \<Rightarrow> 'a page_scheme" where
  "showLoadingState s =
     s\<lparr>loadingState_display := ''flex'', resultsContent_display := ''none'',
       emptyState_display := ''none''\<rparr>"

definition showEmptyState :: "'a page_scheme \<Rightarrow> 'a page_scheme" where
  "showEmptyState s =
     s\<lparr>emptyState_display := ''flex'', resultsContent_display := ''none'',
       loadingState_display := ''none''\<rparr>"

text \<open>
  \<^verbatim>\<open>showError(message)\<close> adds the notification element to the document (it removes
  itself after 5 seconds or when closed, which is not modelled) and then shows the empty
  state.
\<close>

definition showError :: "notice \<Rightarrow> 'a page_scheme \<Rightarrow> 'a page_scheme" where
  "showError message s = showEmptyState (s\<lparr>notifications := notifications s @ [message]\<rparr>)"

subsection \<open>Upload\<close>

definition validTypes :: "string list" where
  "validTypes = [''image/jpeg'', ''image/jpg'', ''image/png'']"

text \<open>
  \<^verbatim>\<open>displayImagePreview\<close> starts a file read; the \<^verbatim>\<open>onload\<close> callback
  (\<open>previewLoaded\<close>) runs when the read completes.
\<close>

definition displayImagePreview :: "image_file \<Rightarrow> 'a page_scheme \<Rightarrow> 'a page_scheme" where
  "displayImagePreview f s = s\<lparr>reading := reading s @ [f]\<rparr>"

definition previewLoaded :: "image_file \<Rightarrow> 'a cpage_scheme \<Rightarrow> 'a cpage_scheme" where
  "previewLoaded f s =
     s\<lparr>previewImg_src := Some f, imagePreview_display := ''block'',
       uploadArea_display := ''none'', imageInfo := Some f,
       reading := remove1 f (reading s)\<rparr>"

definition processFile :: "image_file \<Rightarrow> 'a cpage_scheme \<Rightarrow> 'a cpage_scheme" where
  "processFile f s =
     (if file_type f \<notin> set validTypes then showError InvalidFileType s
      else if file_size f > 10 * 1024 * 1024 then showError FileTooLarge s
      else updateStatus ''Ready to analyze'' ''ready''
             ((displayImagePreview f (s\<lparr>currentImage := Some f\<rparr>))
                \<lparr>analyzeBtn_disabled := False\<rparr>))"

definition clearImageSelection :: "'a cpage_scheme \<Rightarrow> 'a cpage_scheme" where
  "clearImageSelection s =
     updateStatus ''Ready'' ''ready''
       (showEmptyState
          (s\<lparr>currentImage := None, imagePreview_display := ''none'',
             uploadArea_display := ''block'', analyzeBtn_disabled := True\<rparr>))"

subsection \<open>Connection\<close>

text \<open>
  \<^verbatim>\<open>initializeGradioClient\<close>: the \<^verbatim>\<open>catch\<close> block handles both the missing factory and
  a rejected \<^verbatim>\<open>connect\<close>, and the method itself always returns normally.
\<close>

definition initializeGradioClient :: "env \<Rightarrow> 'a page_scheme \<Rightarrow> 'a page_scheme" where
  "initializeGradioClient e s =
     (let s1 = updateStatus ''Connecting to API...'' ''processing'' s
      in if connects e
         then updateStatus ''Ready'' ''ready'' (s1\<lparr>gradioClient := Some spaceUrl\<rparr>)
         else showError ConnectionUnavailable
                (updateStatus ''API connection failed'' ''error'' s1))"

definition ensureGradioConnection :: "env \<Rightarrow> 'a page_scheme \<Rightarrow> 'a page_scheme" where
  "ensureGradioConnection e s =
     (if gradioClient s = None then initializeGradioClient e s else s)"

subsection \<open>Interpreting the response\<close>

text \<open>
  Lines 189 to 204 of \<^verbatim>\<open>analyzeImage\<close>: the error raised, or the entry passed to
  \<^verbatim>\<open>displayResults\<close>.
\<close>

definition interpret_response :: "jsval \<Rightarrow> failure + jsval" where
  "interpret_response result =
     (if truthy result \<and> truthy (js_get result ''data'')
         \<and> truthy (index0 (js_get result ''data''))
      then (let apiResult = index0 (js_get result ''data'')
            in if truthy (js_get apiResult ''error'')
               then Inl (RemoteError (js_get apiResult ''error''))
               else if truthy (js_get apiResult ''class'')
                       \<and> truthy (js_get apiResult ''probabilities'')
               then Inr apiResult
               else Inl (MalformedResponse InvalidFormat))
      else Inl (MalformedResponse NoValidResponse))"

subsection \<open>Rendering\<close>

text \<open>
  \<^verbatim>\<open>table[className] || fallback\<close> on an object literal whose values are all non-empty
  strings. A name that the literal inherits from \<^verbatim>\<open>Object.prototype\<close> reads the
  inherited member, which is neither an entry of the table nor the fallback: \<open>None\<close>.
\<close>

definition inherited_names :: "string list" where
  "inherited_names =
     [''constructor'', ''hasOwnProperty'', ''isPrototypeOf'', ''propertyIsEnumerable'',
      ''toLocaleString'', ''toString'', ''valueOf'', ''__proto__'', ''__defineGetter__'',
      ''__defineSetter__'', ''__lookupGetter__'', ''__lookupSetter__'']"

definition lookup_or :: "(string \<times> 'a) list \<Rightarrow> 'a \<Rightarrow> string \<Rightarrow> 'a option" where
  "lookup_or table fallback k =
     (case map_of table k of
        Some v \<Rightarrow> Some v
      | None \<Rightarrow> if k \<in> set inherited_names then None else Some fallback)"

definition getClassIcon :: "string \<Rightarrow> icon option" where
  "getClassIcon className =
     lookup_or
       [(''adenocarcinoma'', RedCircle), (''large.cell.carcinoma'', OrangeCircle),
        (''normal'', CheckMark), (''squamous.cell.carcinoma'', YellowCircle)]
       Target className"

definition getClassColor :: "string \<Rightarrow> string option" where
  "getClassColor className =
     lookup_or
       [(''adenocarcinoma'', ''#e74c3c''), (''large.cell.carcinoma'', ''#f39c12''),
        (''normal'', ''#27ae60''), (''squamous.cell.carcinoma'', ''#f1c40f'')]
       ''#3498db'' className"

text \<open>
  \<^verbatim>\<open>Object.entries(v)\<close> for a value other than \<^verbatim>\<open>null\<close> and \<^verbatim>\<open>undefined\<close>: the own
  properties of an object, the indexed elements of an array or string, nothing for a
  number or a boolean.
\<close>

fun entries :: "jsval \<Rightarrow> (string \<times> jsval) list" where
  "entries (JObj kvs) = kvs"
| "entries (JArr xs) = zip (map (\<lambda>i. digits_of (int i)) [0..<length xs]) xs"
| "entries (JStr cs) =
     zip (map (\<lambda>i. digits_of (int i)) [0..<length cs]) (map (\<lambda>c. JStr [c]) cs)"
| "entries v = []"

text \<open>The entries when every value is a number; \<open>None\<close> otherwise (coercion not modelled).\<close>

fun numeric_entries :: "(string \<times> jsval) list \<Rightarrow> (string \<times> rat) list option" where
  "numeric_entries [] = Some []"
| "numeric_entries ((k, JNum x) # kvs) = map_option ((#) (k, x)) (numeric_entries kvs)"
| "numeric_entries (kv # kvs) = None"

text \<open>
  \<^verbatim>\<open>Array.prototype.sort(compare)\<close> is stable: with a comparator that is a consistent
  ordering, as \<^verbatim>\<open>([, a], [, b]) => b - a\<close> is on numbers, the result is the one of a
  stable insertion sort, where \<open>x\<close> goes before \<open>y\<close> when \<open>compare x y \<le> 0\<close> and
  \<open>x\<close> was before \<open>y\<close>.
\<close>

fun insort_cmp :: "('a \<Rightarrow> 'a \<Rightarrow> rat) \<Rightarrow> 'a \<Rightarrow> 'a list \<Rightarrow> 'a list" where
  "insort_cmp cmp x [] = [x]"
| "insort_cmp cmp x (y # ys) =
     (if cmp x y \<le> 0 then x # y # ys else y # insort_cmp cmp x ys)"

definition js_sort :: "('a \<Rightarrow> 'a \<Rightarrow> rat) \<Rightarrow> 'a list \<Rightarrow> 'a list" where
  "js_sort cmp xs = foldr (insort_cmp cmp) xs []"

definition by_value_desc :: "string \<times> rat \<Rightarrow> string \<times> rat \<Rightarrow> rat" where
  "by_value_desc p q = js_minus (snd q) (snd p)"

text \<open>\<^verbatim>\<open>Object.entries(probabilities).sort(([, a], [, b]) => b - a)\<close>\<close>

definition sortedProbs :: "jsval \<Rightarrow> (string \<times> rat) list option" where
  "sortedProbs probabilities =
     map_option (js_sort by_value_desc) (numeric_entries (entries probabilities))"

text \<open>The body of the \<^verbatim>\<open>forEach\<close> of \<^verbatim>\<open>createProbabilityBars\<close>.\<close>

definition probabilityBar :: "string \<times> rat \<Rightarrow> bar option" where
  "probabilityBar p =
     (case percentage 1 (JNum (snd p)) of
        None \<Rightarrow> None
      | Some pct \<Rightarrow>
          Some \<lparr>bar_icon = getClassIcon (fst p), bar_name = formatClassName (fst p),
                bar_percentage = pct, bar_color = getClassColor (fst p)\<rparr>)"

text \<open>
  The result of a method that can raise: the state it ends in, or the error raised and
  the state reached by then, or \<open>Unsupported\<close> where the payload has values whose
  coercion to a number is not modelled.
\<close>

datatype 's outcome = Done 's | Raised failure 's | Unsupported

fun and_then :: "'s outcome \<Rightarrow> ('s \<Rightarrow> 's outcome) \<Rightarrow> 's outcome" where
  "and_then (Done s) f = f s"
| "and_then (Raised e s) f = Raised e s"
| "and_then Unsupported f = Unsupported"

definition createProbabilityBars :: "jsval \<Rightarrow> 'a cpage_scheme \<Rightarrow> 'a cpage_scheme outcome" where
  "createProbabilityBars probabilities s =
     (if probabilities = JUndefined \<or> probabilities = JNull
      then Raised (TypeError ''Object.entries'') s
      else case sortedProbs probabilities of
             None \<Rightarrow> Unsupported
           | Some ps \<Rightarrow>
               (case those (map probabilityBar ps) of
                  None \<Rightarrow> Unsupported
                | Some bars \<Rightarrow> Done (s\<lparr>probabilityBars := bars\<rparr>)))"

text \<open>\<^verbatim>\<open>createChart\<close>, with the chart library loaded.\<close>

definition createChart :: "jsval \<Rightarrow> 'a cpage_scheme \<Rightarrow> 'a cpage_scheme outcome" where
  "createChart probabilities s =
     (if probabilities = JUndefined \<or> probabilities = JNull
      then Raised (TypeError ''Object.entries'') s
      else case sortedProbs probabilities of
             None \<Rightarrow> Unsupported
           | Some ps \<Rightarrow>
               (case those (map (\<lambda>p. percentage 1 (JNum (snd p))) ps) of
                  None \<Rightarrow> Unsupported
                | Some pcts \<Rightarrow>
                    (let colors = map (\<lambda>p. getClassColor (fst p)) ps
                     in Done (s\<lparr>chart := Some
                          \<lparr>labels = map (\<lambda>p. formatClassName (fst p)) ps,
                           chart_data = pcts,
                           backgroundColor = colors,
                           borderColor = map (map_option (\<lambda>color. color @ ''40'')) colors\<rparr>\<rparr>))))"

definition displayResults :: "jsval \<Rightarrow> 'a cpage_scheme \<Rightarrow> 'a cpage_scheme outcome" where
  "displayResults data s =
     (let s1 = s\<lparr>loadingState_display := ''none'', emptyState_display := ''none'',
                 resultsContent_display := ''block''\<rparr>
      in case js_get data ''class'' of
           JStr className \<Rightarrow>
             (case percentage 2 (js_get data ''confidence'') of
                None \<Rightarrow> Unsupported
              | Some pct \<Rightarrow>
                  and_then
                    (createProbabilityBars (js_get data ''probabilities'')
                       (s1\<lparr>resultClass := formatClassName className,
                           resultConfidence := ''Confidence: '' @ pct @ ''%'',
                           resultIcon := getClassIcon className\<rparr>))
                    (createChart (js_get data ''probabilities'')))
         | _ \<Rightarrow> Raised (TypeError ''className.split'') s1)"

subsection \<open>The request\<close>

text \<open>
  \<^verbatim>\<open>analyzeImage\<close> up to its first \<^verbatim>\<open>await\<close>: with no image it reports the error
  and returns; otherwise it shows the loading state and suspends.
\<close>

definition analyzeImage_begin :: "'a page_scheme \<Rightarrow> 'a page_scheme" where
  "analyzeImage_begin s =
     (if currentImage s = None then showError NoImageSelected s
      else (updateStatus ''Analyzing...'' ''processing'' (showLoadingState s))
             \<lparr>pending := Suc (pending s)\<rparr>)"

text \<open>
  The awaited steps of the \<^verbatim>\<open>try\<close> block after the connection: \<^verbatim>\<open>fileToBlob\<close>, the
  call \<^verbatim>\<open>this.gradioClient.predict("/predict_tumor_json", ...)\<close>, and the inspection
  of its result. \<open>Inl\<close> is the error raised, \<open>Inr\<close> the entry to display.
  \<^verbatim>\<open>fileToBlob(this.currentImage)\<close> reads the field when the connection step is over.
  With the client already there that is within the turn of the click, where the field
  is set (\<open>held\<close>); otherwise it is when the connection attempt ends, and the field may
  have been cleared by then.
\<close>

definition request :: "env \<Rightarrow> bool \<Rightarrow> 'a page_scheme \<Rightarrow> failure + jsval" where
  "request e held s =
     (if \<not> held \<and> currentImage s = None then Inl (TypeError ''reader.readAsArrayBuffer'')
      else if \<not> read_ok e then Inl ReadFailed
      else if gradioClient s = None then Inl (TypeError ''this.gradioClient.predict'')
      else (case predict e of
              Inl m \<Rightarrow> Inl (Rejected m)
            | Inr result \<Rightarrow> interpret_response result))"

text \<open>The \<^verbatim>\<open>catch\<close> block of \<^verbatim>\<open>analyzeImage\<close>.\<close>

definition analysis_failed :: "failure \<Rightarrow> 'a page_scheme \<Rightarrow> 'a page_scheme" where
  "analysis_failed err s = updateStatus ''Error'' ''error'' (showError (RequestFailed err) s)"

text \<open>
  \<^verbatim>\<open>analyzeImage\<close> from its first \<^verbatim>\<open>await\<close> to its end, with no other event of the
  page in between. The first component is the error the \<^verbatim>\<open>catch\<close> block handled, if
  any. \<open>None\<close>: the payload is outside the modelled fragment. The client is never
  reset, so a call that goes on with the client there has read its image.
\<close>

definition analyzeImage_finish ::
  "env \<Rightarrow> 'a cpage_scheme \<Rightarrow> (failure option \<times> 'a cpage_scheme) option" where
  "analyzeImage_finish e s =
     (let s1 = (ensureGradioConnection e s)\<lparr>pending := pending s - 1\<rparr>
      in case request e (gradioClient s \<noteq> None) s1 of
           Inl err \<Rightarrow> Some (Some err, analysis_failed err s1)
         | Inr apiResult \<Rightarrow>
             (case displayResults apiResult s1 of
                Done s2 \<Rightarrow> Some (None, updateStatus ''Analysis complete'' ''success'' s2)
              | Raised err s2 \<Rightarrow> Some (Some err, analysis_failed err s2)
              | Unsupported \<Rightarrow> None))"

text \<open>A whole call of \<^verbatim>\<open>analyzeImage\<close>, uninterrupted.\<close>

definition analyzeImage ::
  "env \<Rightarrow> 'a cpage_scheme \<Rightarrow> (failure option \<times> 'a cpage_scheme) option" where
  "analyzeImage e s =
     (if currentImage s = None then Some (None, analyzeImage_begin s)
      else analyzeImage_finish e (analyzeImage_begin s))"

text \<open>
  The events of the classification page: the user picks or drops a file, clears the
  selection, clicks the Analyze button (a disabled button dispatches no click), and a
  suspended call of \<^verbatim>\<open>analyzeImage\<close> runs to its end.
\<close>

datatype cevent = SelectFile image_file | ClearImage | ClickAnalyze | Settle env

definition cstep :: "cevent \<Rightarrow> 'a cpage_scheme \<Rightarrow> 'a cpage_scheme option" where
  "cstep ev s =
     (case ev of
        SelectFile f \<Rightarrow> Some (processFile f s)
      | ClearImage \<Rightarrow> Some (clearImageSelection s)
      | ClickAnalyze \<Rightarrow> Some (if analyzeBtn_disabled s then s else analyzeImage_begin s)
      | Settle e \<Rightarrow>
          (if pending s = 0 then Some s else map_option snd (analyzeImage_finish e s)))"

fun crun :: "cevent list \<Rightarrow> 'a cpage_scheme \<Rightarrow> 'a cpage_scheme option" where
  "crun [] s = Some s"
| "crun (ev # evs) s = (case cstep ev s of None \<Rightarrow> None | Some s' \<Rightarrow> crun evs s')"

section \<open>The augmentation page\<close>

text \<open>
  One of the 8 grid items named by \<^verbatim>\<open>imageElements\<close>: the image's \<^verbatim>\<open>src\<close>, whether
  its \<^verbatim>\<open>onload\<close>/\<^verbatim>\<open>onerror\<close> handlers are set, the class \<^verbatim>\<open>loading\<close> of its
  container, and the classes \<^verbatim>\<open>loaded\<close> and \<^verbatim>\<open>error\<close> of its item.
\<close>

record slot =
  img_src :: jsval
  img_watched :: bool
  container_loading :: bool
  item_loaded :: bool
  item_error :: bool

text \<open>A download started by \<^verbatim>\<open>link.click()\<close> in \<^verbatim>\<open>downloadImage\<close>.\<close>

record download =
  href :: jsval
  download_type :: jsval
  stamp :: nat

text \<open>
  \<^verbatim>\<open>class ImageAugmentationApp\<close>. \<open>slots i\<close> is the grid item of
  \<^verbatim>\<open>imageElements[i]\<close>, for \<open>i < 8\<close>. \<open>download_listeners\<close> counts the click
  listeners \<^verbatim>\<open>setupDownloadButtons\<close> has added to each download button. \<open>timers\<close> are
  the pending \<^verbatim>\<open>setTimeout\<close> callbacks of \<^verbatim>\<open>downloadAll\<close>: delay and slot index.
\<close>

record apage = page +
  augmentationResults :: "jsval list option"
  augmentBtn_disabled :: bool
  slots :: "nat \<Rightarrow> slot"
  download_listeners :: nat
  downloads :: "download list"
  timers :: "(nat \<times> nat) list"

definition validTypes_aug :: "string list" where
  "validTypes_aug = [''image/png'', ''image/jpeg'', ''image/jpg'']"

definition isValidImageFile :: "image_file \<Rightarrow> bool" where
  "isValidImageFile f = (file_type f \<in> set validTypes_aug)"

text \<open>The augmentation script's \<^verbatim>\<open>updateStatus(type, text)\<close>.\<close>

definition updateStatus_aug :: "string \<Rightarrow> string \<Rightarrow> 'a page_scheme \<Rightarrow> 'a page_scheme" where
  "updateStatus_aug type text s = s\<lparr>status_text := text, status_type := type\<rparr>"

text \<open>The augmentation script's \<^verbatim>\<open>showError\<close> only adds the notification element.\<close>

definition showError_aug :: "notice \<Rightarrow> 'a page_scheme \<Rightarrow> 'a page_scheme" where
  "showError_aug message s = s\<lparr>notifications := notifications s @ [message]\<rparr>"

definition showLoading :: "'a apage_scheme \<Rightarrow> 'a apage_scheme" where
  "showLoading s =
     s\<lparr>loadingState_display := ''flex'', resultsContent_display := ''none'',
       emptyState_display := ''none'', augmentBtn_disabled := True\<rparr>"

definition hideLoading :: "'a apage_scheme \<Rightarrow> 'a apage_scheme" where
  "hideLoading s = s\<lparr>loadingState_display := ''none'', augmentBtn_disabled := False\<rparr>"

definition showResults :: "'a page_scheme \<Rightarrow> 'a page_scheme" where
  "showResults s = s\<lparr>resultsContent_display := ''block'', emptyState_display := ''none''\<rparr>"

definition hideResults :: "'a apage_scheme \<Rightarrow> 'a apage_scheme" where
  "hideResults s =
     s\<lparr>resultsContent_display := ''none'', emptyState_display := ''block'',
       slots := (\<lambda>i. (slots s i)\<lparr>img_src := JStr [], item_loaded := False,
                                     item_error := False\<rparr>)\<rparr>"

definition processFile_aug :: "image_file \<Rightarrow> 'a apage_scheme \<Rightarrow> 'a apage_scheme" where
  "processFile_aug f s =
     (if \<not> isValidImageFile f then showError_aug InvalidFileType s
      else updateStatus_aug ''ready'' ''Image Ready''
             ((displayImagePreview f (s\<lparr>currentImage := Some f\<rparr>))
                \<lparr>augmentBtn_disabled := False\<rparr>))"

definition previewLoaded_aug :: "image_file \<Rightarrow> 'a page_scheme \<Rightarrow> 'a page_scheme" where
  "previewLoaded_aug f s =
     s\<lparr>previewImg_src := Some f, imagePreview_display := ''block'', imageInfo := Some f,
       reading := remove1 f (reading s)\<rparr>"

definition clearImage :: "'a apage_scheme \<Rightarrow> 'a apage_scheme" where
  "clearImage s =
     updateStatus_aug ''ready'' ''Ready''
       (hideResults
          (s\<lparr>currentImage := None, imagePreview_display := ''none'',
             augmentBtn_disabled := True\<rparr>))"

definition spaceUrl_aug :: string where
  "spaceUrl_aug = ''Bellahouell/lung_augmentation_api''"

definition initializeGradioClient_aug :: "env \<Rightarrow> 'a page_scheme \<Rightarrow> 'a page_scheme" where
  "initializeGradioClient_aug e s =
     (let s1 = updateStatus_aug ''processing'' ''Connecting to API...'' s
      in if connects e
         then updateStatus_aug ''ready'' ''Ready'' (s1\<lparr>gradioClient := Some spaceUrl_aug\<rparr>)
         else showError_aug ConnectionUnavailable
                (updateStatus_aug ''error'' ''API connection failed'' s1))"

subsection \<open>Interpreting the response\<close>

text \<open>The function mapped over \<^verbatim>\<open>result.data\<close> (lines 215 to 225).\<close>

definition extract_url :: "jsval \<Rightarrow> jsval" where
  "extract_url item =
     (case item of
        JStr u \<Rightarrow> item
      | _ \<Rightarrow>
          if truthy item \<and> truthy (js_get item ''url'') then js_get item ''url''
          else if truthy item \<and> truthy (js_get item ''path'') then js_get item ''path''
          else JNull)"

text \<open>\<^verbatim>\<open>result.data.map(...).filter((url) => url !== null)\<close>\<close>

definition imageUrls :: "jsval list \<Rightarrow> jsval list" where
  "imageUrls data = filter (\<lambda>url. url \<noteq> JNull) (map extract_url data)"

text \<open>
  Lines 210 to 241 of \<^verbatim>\<open>generateAugmentations\<close>: the error raised, or the list stored
  in \<^verbatim>\<open>augmentationResults\<close> and passed to \<^verbatim>\<open>displayAugmentations\<close>.
\<close>

definition interpret_augmentations :: "jsval \<Rightarrow> failure + jsval list" where
  "interpret_augmentations result =
     (if truthy result \<and> truthy (js_get result ''data'')
      then (case js_get result ''data'' of
              JArr items \<Rightarrow>
                if length items \<ge> 1 then Inr (imageUrls items)
                else Inl (MalformedResponse (InvalidItemCount (js_length (JArr items))))
            | other \<Rightarrow> Inl (MalformedResponse (InvalidItemCount (js_length other))))
      else Inl (MalformedResponse NoValidResponse))"

subsection \<open>Rendering\<close>

text \<open>The body of the \<^verbatim>\<open>forEach\<close> of \<^verbatim>\<open>displayAugmentations\<close>, for one item.\<close>

definition bind_slot :: "jsval \<Rightarrow> slot \<Rightarrow> slot" where
  "bind_slot reference sl =
     (if truthy reference
      then sl\<lparr>container_loading := True, img_watched := True, img_src := reference\<rparr>
      else sl\<lparr>item_error := True\<rparr>)"

text \<open>
  \<^verbatim>\<open>displayAugmentations(results)\<close>, ending with \<^verbatim>\<open>setupDownloadButtons\<close>. (The
  handlers of \<^verbatim>\<open>setupImageClickHandlers\<close> only open the full-screen view.)
\<close>

definition displayAugmentations :: "jsval list \<Rightarrow> 'a apage_scheme \<Rightarrow> 'a apage_scheme" where
  "displayAugmentations results s =
     (let s1 = showResults (hideLoading s)
      in s1\<lparr>slots := (\<lambda>i. if i < 8 then bind_slot (elem results i) (slots s1 i)
                           else slots s1 i),
            download_listeners := Suc (download_listeners s1)\<rparr>)"

text \<open>The \<^verbatim>\<open>onload\<close> and \<^verbatim>\<open>onerror\<close> handlers of the image of slot \<open>i\<close>.\<close>

definition img_onload :: "nat \<Rightarrow> 'a apage_scheme \<Rightarrow> 'a apage_scheme" where
  "img_onload i s =
     (if img_watched (slots s i)
      then s\<lparr>slots := (slots s)(i := (slots s i)\<lparr>container_loading := False,
                                                 item_loaded := True\<rparr>)\<rparr>
      else s)"

definition img_onerror :: "nat \<Rightarrow> 'a apage_scheme \<Rightarrow> 'a apage_scheme" where
  "img_onerror i s =
     (if img_watched (slots s i)
      then s\<lparr>slots := (slots s)(i := (slots s i)\<lparr>container_loading := False,
                                                 item_error := True\<rparr>)\<rparr>
      else s)"

subsection \<open>The request\<close>

text \<open>
  \<^verbatim>\<open>generateAugmentations\<close> up to its first \<^verbatim>\<open>await\<close>: with no image it reports
  the error and returns; otherwise it shows the loading state, which disables the
  submit button, and suspends.
\<close>

definition generateAugmentations_begin :: "'a apage_scheme \<Rightarrow> 'a apage_scheme" where
  "generateAugmentations_begin s =
     (if currentImage s = None then showError_aug NoImageSelected s
      else (updateStatus_aug ''processing'' ''Processing...'' (showLoading s))
             \<lparr>pending := Suc (pending s)\<rparr>)"

text \<open>
  The awaited steps after the connection test: \<^verbatim>\<open>fileToBlob\<close>, the call
  \<^verbatim>\<open>this.gradioClient.predict("/create_individual_augmentations", ...)\<close>, and the
  inspection of its result. With the client already there, \<^verbatim>\<open>this.currentImage\<close> is
  read within the click handler, where it is set (\<open>held\<close>); otherwise it is read when
  the connection attempt ends.
\<close>

definition request_aug :: "env \<Rightarrow> bool \<Rightarrow> 'a page_scheme \<Rightarrow> failure + jsval list" where
  "request_aug e held s =
     (if \<not> held \<and> currentImage s = None then Inl (TypeError ''reader.readAsArrayBuffer'')
      else if \<not> read_ok e then Inl ReadFailed
      else if gradioClient s = None then Inl (TypeError ''this.gradioClient.predict'')
      else (case predict e of
              Inl m \<Rightarrow> Inl (Rejected m)
            | Inr result \<Rightarrow> interpret_augmentations result))"

text \<open>
  The \<^verbatim>\<open>catch\<close> block of \<^verbatim>\<open>generateAugmentations\<close>. It evaluates
  \<^verbatim>\<open>error.message.includes(...)\<close>, which itself raises on the reader's error event
  (no \<^verbatim>\<open>message\<close>): then neither \<^verbatim>\<open>showError\<close> nor \<^verbatim>\<open>updateStatus\<close> runs.
\<close>

definition augmentation_failed :: "failure \<Rightarrow> 'a page_scheme \<Rightarrow> 'a page_scheme" where
  "augmentation_failed err s =
     (if err = ReadFailed then s
      else updateStatus_aug ''error'' ''Failed'' (showError_aug (RequestFailed err) s))"

text \<open>
  The first step of the \<^verbatim>\<open>try\<close> block ("Test connection first"):
  \<^verbatim>\<open>if (!this.gradioClient) { this.updateStatus(...); await this.initializeGradioClient(); }\<close>
\<close>

definition test_connection :: "env \<Rightarrow> 'a page_scheme \<Rightarrow> 'a page_scheme" where
  "test_connection e s =
     (if gradioClient s = None
      then initializeGradioClient_aug e
             (updateStatus_aug ''processing'' ''Connecting to API...'' s)
      else s)"

text \<open>
  \<^verbatim>\<open>generateAugmentations\<close> from its first \<^verbatim>\<open>await\<close> to its end, with no other event
  of the page in between. The first component is the error the \<^verbatim>\<open>catch\<close> block
  handled, if any. The client is never reset, so a call that goes on with the client
  there has read its image.
\<close>

definition generateAugmentations_finish ::
  "env \<Rightarrow> 'a apage_scheme \<Rightarrow> failure option \<times> 'a apage_scheme" where
  "generateAugmentations_finish e s =
     (let s1 = test_connection e (s\<lparr>pending := pending s - 1\<rparr>)
      in case request_aug e (gradioClient s \<noteq> None) s1 of
           Inl err \<Rightarrow> (Some err, augmentation_failed err s1)
         | Inr urls \<Rightarrow>
             (None, updateStatus_aug ''success'' ''Complete''
                      (displayAugmentations urls (s1\<lparr>augmentationResults := Some urls\<rparr>))))"

text \<open>A whole call of \<^verbatim>\<open>generateAugmentations\<close>, uninterrupted.\<close>

definition generateAugmentations ::
  "env \<Rightarrow> 'a apage_scheme \<Rightarrow> failure option \<times> 'a apage_scheme" where
  "generateAugmentations e s =
     (if currentImage s = None then (None, generateAugmentations_begin s)
      else generateAugmentations_finish e (generateAugmentations_begin s))"

subsection \<open>Downloads\<close>

definition downloadImage :: "jsval \<Rightarrow> jsval \<Rightarrow> nat \<Rightarrow> 'a apage_scheme \<Rightarrow> 'a apage_scheme" where
  "downloadImage imageUrl type now s =
     (if \<not> truthy imageUrl then s
      else s\<lparr>downloads := downloads s @
               [\<lparr>href = imageUrl, download_type = type, stamp = now\<rparr>]\<rparr>)"

text \<open>
  One click listener of the download button at position \<open>index\<close>, whose
  \<^verbatim>\<open>data-type\<close> attribute reads \<open>type\<close>.
\<close>

definition download_listener :: "nat \<Rightarrow> jsval \<Rightarrow> nat \<Rightarrow> 'a apage_scheme \<Rightarrow> 'a apage_scheme" where
  "download_listener index type now s =
     (case augmentationResults s of
        None \<Rightarrow> s
      | Some results \<Rightarrow>
          if truthy (elem results index) then downloadImage (elem results index) type now s
          else s)"

text \<open>A click on that button runs every listener added so far.\<close>

definition click_download :: "nat \<Rightarrow> jsval \<Rightarrow> nat \<Rightarrow> 'a apage_scheme \<Rightarrow> 'a apage_scheme" where
  "click_download index type now s =
     ((download_listener index type now) ^^ download_listeners s) s"

definition types :: "string list" where
  "types = [''original'', ''rotation'', ''width-shift'', ''height-shift'', ''shear'', ''zoom'',
            ''brightness'', ''channel-shift'']"

text \<open>\<^verbatim>\<open>types[i]\<close>\<close>

definition type_at :: "nat \<Rightarrow> jsval" where
  "type_at i = (if i < length types then JStr (types ! i) else JUndefined)"

text \<open>The indices for which the loop of \<^verbatim>\<open>downloadAll\<close> calls \<^verbatim>\<open>setTimeout\<close>.\<close>

definition scheduled :: "jsval list \<Rightarrow> nat list" where
  "scheduled results = filter (\<lambda>i. truthy (elem results i)) [0..<length results]"

definition downloadAll :: "'a apage_scheme \<Rightarrow> 'a apage_scheme" where
  "downloadAll s =
     (case augmentationResults s of
        None \<Rightarrow> s
      | Some results \<Rightarrow>
          s\<lparr>timers := timers s @ map (\<lambda>i. (i * 200, i)) (scheduled results)\<rparr>)"

text \<open>
  The callback of a timer for slot \<open>i\<close>:
  \<^verbatim>\<open>this.downloadImage(this.augmentationResults[i], types[i])\<close>, reading the field when
  it runs. (The field is never reset to \<^verbatim>\<open>null\<close> once set, so that it is set whenever a
  timer exists.)
\<close>

definition timer_callback :: "nat \<Rightarrow> nat \<Rightarrow> 'a apage_scheme \<Rightarrow> 'a apage_scheme" where
  "timer_callback i now s =
     (case augmentationResults s of
        None \<Rightarrow> s
      | Some results \<Rightarrow> downloadImage (elem results i) (type_at i) now s)"

text \<open>The \<open>k\<close>-th pending timer fires.\<close>

definition fire_timer :: "nat \<Rightarrow> nat \<Rightarrow> 'a apage_scheme \<Rightarrow> 'a apage_scheme" where
  "fire_timer k now s =
     (if k < length (timers s)
      then timer_callback (snd (timers s ! k)) now
             (s\<lparr>timers := take k (timers s) @ drop (Suc k) (timers s)\<rparr>)
      else s)"

subsection \<open>Events\<close>

text \<open>
  The events of the augmentation page. A disabled button dispatches no click, and the
  key handler starts a request on Enter only with an image selected and the button
  enabled.
\<close>

datatype aevent =
    ASelectFile image_file
  | AClearImage
  | ClickAugment
  | PressEnter
  | ASettle env
  | ImageLoaded nat
  | ImageFailed nat
  | ClickDownload nat jsval nat
  | ClickDownloadAll
  | TimerFires nat nat

definition astep :: "aevent \<Rightarrow> 'a apage_scheme \<Rightarrow> 'a apage_scheme" where
  "astep ev s =
     (case ev of
        ASelectFile f \<Rightarrow> processFile_aug f s
      | AClearImage \<Rightarrow> clearImage s
      | ClickAugment \<Rightarrow> if augmentBtn_disabled s then s else generateAugmentations_begin s
      | PressEnter \<Rightarrow>
          if currentImage s \<noteq> None \<and> \<not> augmentBtn_disabled s
          then generateAugmentations_begin s else s
      | ASettle e \<Rightarrow> if pending s = 0 then s else snd (generateAugmentations_finish e s)
      | ImageLoaded i \<Rightarrow> img_onload i s
      | ImageFailed i \<Rightarrow> img_onerror i s
      | ClickDownload index type now \<Rightarrow> click_download index type now s
      | ClickDownloadAll \<Rightarrow> downloadAll s
      | TimerFires k now \<Rightarrow> fire_timer k now s)"

definition arun :: "aevent list \<Rightarrow> 'a apage_scheme \<Rightarrow> 'a apage_scheme" where
  "arun evs s = foldl (\<lambda>s ev. astep ev s) s evs"

section \<open>Pages as loaded\<close>

text \<open>
  The state in which the constructors leave the two pages, used for the examples below.
  The fields are set by the constructors; for what the markup decides, the pages are
  taken to show the empty state, with the submit button disabled and no text in the
  result elements. Both constructors end by starting \<^verbatim>\<open>initializeGradioClient\<close>, which
  sets the status "Connecting to API..." before it suspends; the augmentation page's
  \<^verbatim>\<open>init\<close> then sets the status "Ready".
\<close>

definition fresh_cpage :: cpage where
  "fresh_cpage =
     \<lparr>gradioClient = None, currentImage = None, previewImg_src = None,
      imagePreview_display = ''none'', imageInfo = None, reading = [],
      loadingState_display = ''none'', resultsContent_display = ''none'',
      emptyState_display = ''flex'', status_text = ''Connecting to API...'',
      status_type = ''processing'', notifications = [], pending = 0,
      chart = None, analyzeBtn_disabled = True, uploadArea_display = ''block'',
      resultClass = [], resultConfidence = [], resultIcon = None, probabilityBars = []\<rparr>"

definition fresh_slot :: slot where
  "fresh_slot =
     \<lparr>img_src = JStr [], img_watched = False, container_loading = False,
      item_loaded = False, item_error = False\<rparr>"

definition fresh_apage :: apage where
  "fresh_apage =
     \<lparr>gradioClient = None, currentImage = None, previewImg_src = None,
      imagePreview_display = ''none'', imageInfo = None, reading = [],
      loadingState_display = ''none'', resultsContent_display = ''none'',
      emptyState_display = ''flex'', status_text = ''Ready'', status_type = ''ready'',
      notifications = [], pending = 0,
      augmentationResults = None, augmentBtn_disabled = True, slots = (\<lambda>i. fresh_slot),
      download_listeners = 0, downloads = [], timers = []\<rparr>"

text \<open>An image file of the given type and size.\<close>

definition scan :: "string \<Rightarrow> nat \<Rightarrow> image_file" where
  "scan type bytes = \<lparr>file_name = ''scan'', file_type = type, file_size = bytes\<rparr>"

section \<open>A sample response\<close>

text \<open>
  The structured response
  \<^verbatim>\<open>{class: "normal", confidence: 0.97, probabilities: {"normal": 0.97,
  "adenocarcinoma": 0.02, "large.cell.carcinoma": 0.005, "squamous.cell.carcinoma": 0.005}}\<close>,
  the entries of its probabilities in the order the script sorts them, and the bars and
  the chart the script renders for it.
\<close>

definition sample_probabilities :: jsval where
  "sample_probabilities =
     JObj [(''normal'', js_literal (97 / 100)), (''adenocarcinoma'', js_literal (2 / 100)),
           (''large.cell.carcinoma'', js_literal (5 / 1000)),
           (''squamous.cell.carcinoma'', js_literal (5 / 1000))]"

definition sample_result :: jsval where
  "sample_result =
     JObj [(''class'', JStr ''normal''), (''confidence'', js_literal (97 / 100)),
           (''probabilities'', sample_probabilities)]"

definition sample_sorted :: "(string \<times> rat) list" where
  "sample_sorted =
     [(''normal'', nearest_double (97 / 100)), (''adenocarcinoma'', nearest_double (2 / 100)),
      (''large.cell.carcinoma'', nearest_double (5 / 1000)),
      (''squamous.cell.carcinoma'', nearest_double (5 / 1000))]"

definition sample_bars :: "bar list" where
  "sample_bars =
     [\<lparr>bar_icon = Some CheckMark, bar_name = ''Normal'', bar_percentage = ''97.0'',
       bar_color = Some ''#27ae60''\<rparr>,
      \<lparr>bar_icon = Some RedCircle, bar_name = ''Adenocarcinoma'', bar_percentage = ''2.0'',
       bar_color = Some ''#e74c3c''\<rparr>,
      \<lparr>bar_icon = Some OrangeCircle, bar_name = ''Large Cell Carcinoma'',
       bar_percentage = ''0.5'', bar_color = Some ''#f39c12''\<rparr>,
      \<lparr>bar_icon = Some YellowCircle, bar_name = ''Squamous Cell Carcinoma'',
       bar_percentage = ''0.5'', bar_color = Some ''#f1c40f''\<rparr>]"

definition sample_chart :: doughnut where
  "sample_chart =
     \<lparr>labels = [''Normal'', ''Adenocarcinoma'', ''Large Cell Carcinoma'',
                ''Squamous Cell Carcinoma''],
      chart_data = [''97.0'', ''2.0'', ''0.5'', ''0.5''],
      backgroundColor = [Some ''#27ae60'', Some ''#e74c3c'', Some ''#f39c12'', Some ''#f1c40f''],
      borderColor = [Some ''#27ae6040'', Some ''#e74c3c40'', Some ''#f39c1240'',
                     Some ''#f1c40f40'']\<rparr>"

text \<open>
  A response that lists the same probabilities in another order, with the bars and the
  chart the script renders for it.
\<close>

definition shuffled_probabilities :: jsval where
  "shuffled_probabilities =
     JObj [(''squamous.cell.carcinoma'', js_literal (5 / 1000)),
           (''adenocarcinoma'', js_literal (2 / 100)), (''normal'', js_literal (97 / 100)),
           (''large.cell.carcinoma'', js_literal (5 / 1000))]"

definition shuffled_result :: jsval where
  "shuffled_result =
     JObj [(''class'', JStr ''normal''), (''confidence'', js_literal (97 / 100)),
           (''probabilities'', shuffled_probabilities)]"

definition shuffled_entries :: "(string \<times> rat) list" where
  "shuffled_entries =
     [(''squamous.cell.carcinoma'', nearest_double (5 / 1000)),
      (''adenocarcinoma'', nearest_double (2 / 100)), (''normal'', nearest_double (97 / 100)),
      (''large.cell.carcinoma'', nearest_double (5 / 1000))]"

definition shuffled_bars :: "bar list" where
  "shuffled_bars =
     [\<lparr>bar_icon = Some CheckMark, bar_name = ''Normal'', bar_percentage = ''97.0'',
       bar_color = Some ''#27ae60''\<rparr>,
      \<lparr>bar_icon = Some RedCircle, bar_name = ''Adenocarcinoma'', bar_percentage = ''2.0'',
       bar_color = Some ''#e74c3c''\<rparr>,
      \<lparr>bar_icon = Some YellowCircle, bar_name = ''Squamous Cell Carcinoma'',
       bar_percentage = ''0.5'', bar_color = Some ''#f1c40f''\<rparr>,
      \<lparr>bar_icon = Some OrangeCircle, bar_name = ''Large Cell Carcinoma'',
       bar_percentage = ''0.5'', bar_color = Some ''#f39c12''\<rparr>]"

definition shuffled_chart :: doughnut where
  "shuffled_chart =
     \<lparr>labels = [''Normal'', ''Adenocarcinoma'', ''Squamous Cell Carcinoma'',
                ''Large Cell Carcinoma''],
      chart_data = [''97.0'', ''2.0'', ''0.5'', ''0.5''],
      backgroundColor = [Some ''#27ae60'', Some ''#e74c3c'', Some ''#f1c40f'', Some ''#f39c12''],
      borderColor = [Some ''#27ae6040'', Some ''#e74c3c40'', Some ''#f1c40f40'',
                     Some ''#f39c1240'']\<rparr>"

section \<open>Example environments and states\<close>

text \<open>
  An environment in which the client factory is there at once, the connection and the
  file read succeed, and the remote call resolves with the given result; and one in
  which the factory never appears.
\<close>

definition service_up :: "jsval \<Rightarrow> env" where
  "service_up result =
     \<lparr>factory_at = (\<lambda>k. True), connect_ok = True, read_ok = True, predict = Inr result\<rparr>"

definition never_loaded :: env where
  "never_loaded =
     \<lparr>factory_at = (\<lambda>k. False), connect_ok = True, read_ok = True,
      predict = Inl ''not called''\<rparr>"

text \<open>A response whose first entry is \<^verbatim>\<open>{error: "model unavailable"}\<close>.\<close>

definition error_response :: jsval where
  "error_response = JObj [(''data'', JArr [JObj [(''error'', JStr ''model unavailable'')]])]"

text \<open>
  The classification page after a PNG file of 1000 bytes has been selected, and after
  the sample response has then been rendered for it (\<open>shown_after_success\<close> below).
\<close>

definition selected_cpage :: cpage where
  "selected_cpage = processFile (scan ''image/png'' 1000) fresh_cpage"

definition shown_cpage :: cpage where
  "shown_cpage =
     fresh_cpage
       \<lparr>gradioClient := Some spaceUrl, currentImage := Some (scan ''image/png'' 1000),
        reading := [scan ''image/png'' 1000],
        loadingState_display := ''none'', resultsContent_display := ''block'',
        emptyState_display := ''none'', status_text := ''Analysis complete'',
        status_type := ''success'', chart := Some sample_chart,
        analyzeBtn_disabled := False, resultClass := ''Normal'',
        resultConfidence := ''Confidence: 97.00%'', resultIcon := Some CheckMark,
        probabilityBars := sample_bars\<rparr>"

text \<open>The augmentation page after the same file has been selected.\<close>

definition selected_apage :: apage where
  "selected_apage = processFile_aug (scan ''image/png'' 1000) fresh_apage"

text \<open>
  An augmentation response of length 5: three usable items (a string, an object with
  \<^verbatim>\<open>url\<close>, an object with \<^verbatim>\<open>path\<close>), then two \<^verbatim>\<open>null\<close>s.
\<close>

definition five_items :: "jsval list" where
  "five_items =
     [JStr ''https://host/0.png'', JObj [(''url'', JStr ''https://host/1.png'')],
      JObj [(''path'', JStr ''/tmp/2.png'')], JNull, JNull]"

text \<open>
  An augmentation response whose first item is \<^verbatim>\<open>null\<close> and whose second item is a
  URL, and the page after it has been rendered for the selected file.
\<close>

definition null_first :: jsval where
  "null_first = JObj [(''data'', JArr [JNull, JStr ''https://host/1.png''])]"

definition shifted_apage :: apage where
  "shifted_apage = snd (generateAugmentations (service_up null_first) selected_apage)"

text \<open>The page after the response \<^verbatim>\<open>[null]\<close> has been rendered for the selected file.\<close>

definition all_null_apage :: apage where
  "all_null_apage =
     snd (generateAugmentations (service_up (JObj [(''data'', JArr [JNull])])) selected_apage)"

text \<open>
  An augmentation page that holds two stored references, the second one the empty
  string, with one click listener on each download button.
\<close>

definition rendered_apage :: apage where
  "rendered_apage =
     fresh_apage\<lparr>augmentationResults := Some [JStr ''https://host/0.png'', JStr []],
                 download_listeners := 1\<rparr>"

text \<open>
  The downloads the stored results allow: those of a truthy entry of
  \<^verbatim>\<open>augmentationResults\<close>.
\<close>

definition stored :: "'a apage_scheme \<Rightarrow> download set" where
  "stored s = {d. \<exists>rs i. augmentationResults s = Some rs \<and> href d = elem rs i
                       \<and> truthy (elem rs i)}"

section \<open>Properties of the classification response handling\<close>

text \<open>
  C1, as the code has it. The orchestrator fails with
  \<open>MalformedResponse\<close> ("No valid response") exactly when the result, its
  \<^verbatim>\<open>data\<close> or the first entry of \<^verbatim>\<open>data\<close> is absent or falsy; with \<open>RemoteError\<close>,
  carrying the error field, exactly when the entry is there and its error field is
  truthy; with \<open>MalformedResponse\<close> ("Invalid response format") exactly when the entry
  has no truthy error field and lacks a class label or a probability mapping; and it
  passes the entry on to rendering exactly when the entry has no truthy error field and
  has both a class label and a probability mapping.
\<close>

theorem response_interpretation:
  "(interpret_response result = Inl (MalformedResponse NoValidResponse) \<longleftrightarrow>
      \<not> (truthy result \<and> truthy (js_get result ''data'')
          \<and> truthy (index0 (js_get result ''data''))))
   \<and> (interpret_response result = Inl (RemoteError m) \<longleftrightarrow>
        truthy result \<and> truthy (js_get result ''data'')
        \<and> truthy (index0 (js_get result ''data''))
        \<and> truthy (js_get (index0 (js_get result ''data'')) ''error'')
        \<and> m = js_get (index0 (js_get result ''data'')) ''error'')
   \<and> (interpret_response result = Inl (MalformedResponse InvalidFormat) \<longleftrightarrow>
        truthy result \<and> truthy (js_get result ''data'')
        \<and> truthy (index0 (js_get result ''data''))
        \<and> \<not> truthy (js_get (index0 (js_get result ''data'')) ''error'')
        \<and> \<not> (truthy (js_get (index0 (js_get result ''data'')) ''class'')
              \<and> truthy (js_get (index0 (js_get result ''data'')) ''probabilities'')))
   \<and> (interpret_response result = Inr entry \<longleftrightarrow>
        truthy result \<and> truthy (js_get result ''data'')
        \<and> truthy (index0 (js_get result ''data''))
        \<and> \<not> truthy (js_get (index0 (js_get result ''data'')) ''error'')
        \<and> truthy (js_get (index0 (js_get result ''data'')) ''class'')
        \<and> truthy (js_get (index0 (js_get result ''data'')) ''probabilities'')
        \<and> entry = index0 (js_get result ''data''))"
  unfolding interpret_response_def Let_def by auto

text \<open>
  The four outcomes on concrete responses: no data, an error entry, an entry with a
  class label only, and the sample response.
\<close>

theorem response_interpretation_witness:
  "interpret_response (JObj [(''data'', JArr [])]) = Inl (MalformedResponse NoValidResponse)
   \<and> interpret_response (JObj [(''data'', JArr [JObj [(''error'', JStr ''model unavailable'')]])])
       = Inl (RemoteError (JStr ''model unavailable''))
   \<and> interpret_response (JObj [(''data'', JArr [JObj [(''probabilities'', JObj [])]])])
       = Inl (MalformedResponse InvalidFormat)
   \<and> interpret_response (JObj [(''data'', JArr [sample_result])]) = Inr sample_result"
  using response_interpretation [of "JObj [(''data'', JArr [])]"]
    response_interpretation
      [of "JObj [(''data'', JArr [JObj [(''error'', JStr ''model unavailable'')]])]"
          "JStr ''model unavailable''"]
    response_interpretation
      [of "JObj [(''data'', JArr [JObj [(''probabilities'', JObj [])]])]"]
    response_interpretation [of "JObj [(''data'', JArr [sample_result])]" _ sample_result]
  by (simp add: elem_def sample_result_def sample_probabilities_def)

text \<open>
  C1 as the specification states it fails: an entry that has a class label (and no
  error field) but no probability mapping is not rendered; the orchestrator fails with
  \<open>MalformedResponse\<close>.
\<close>

theorem class_label_alone_is_malformed:
  "truthy (js_get (JObj [(''class'', JStr ''normal'')]) ''class'')
   \<and> \<not> truthy (js_get (JObj [(''class'', JStr ''normal'')]) ''error'')
   \<and> interpret_response (JObj [(''data'', JArr [JObj [(''class'', JStr ''normal'')]])])
       = Inl (MalformedResponse InvalidFormat)"
  by (simp add: interpret_response_def elem_def)

section \<open>Properties of the upload controller\<close>

text \<open>
  C6. On the classification page, \<^verbatim>\<open>processFile\<close> on a file of an allowed type and of
  more than 10 MB (\<open>10 * 1024 * 1024\<close> bytes), so of exactly 10 MB + 1 byte, fails with
  \<open>FileTooLarge\<close>: it only reports the error, and the stored image and the button stay
  as they were. On a file of an allowed type and of at most 10 MB, so of exactly 10 MB,
  it succeeds: the file becomes the current image, its preview read starts, the button
  is enabled and nothing is reported. (The type is checked before the size.)
\<close>

theorem size_limit:
  assumes "file_type f \<in> set validTypes"
  shows "(10 * 1024 * 1024 < file_size f \<longrightarrow>
            processFile f s = showError FileTooLarge s
            \<and> notifications (processFile f s) = notifications s @ [FileTooLarge]
            \<and> currentImage (processFile f s) = currentImage s
            \<and> analyzeBtn_disabled (processFile f s) = analyzeBtn_disabled s)
       \<and> (file_size f \<le> 10 * 1024 * 1024 \<longrightarrow>
            currentImage (processFile f s) = Some f
            \<and> analyzeBtn_disabled (processFile f s) = False
            \<and> reading (processFile f s) = reading s @ [f]
            \<and> notifications (processFile f s) = notifications s
            \<and> status_text (processFile f s) = ''Ready to analyze'')"
  using assms
  by (simp add: processFile_def showError_def showEmptyState_def updateStatus_def
      displayImagePreview_def)

theorem size_limit_witness:
  "notifications (processFile (scan ''image/png'' (10 * 1024 * 1024 + 1)) fresh_cpage)
     = [FileTooLarge]
   \<and> currentImage (processFile (scan ''image/png'' (10 * 1024 * 1024 + 1)) fresh_cpage) = None
   \<and> currentImage (processFile (scan ''image/png'' (10 * 1024 * 1024)) fresh_cpage)
       = Some (scan ''image/png'' (10 * 1024 * 1024))
   \<and> \<not> analyzeBtn_disabled (processFile (scan ''image/png'' (10 * 1024 * 1024)) fresh_cpage)
   \<and> notifications (processFile (scan ''image/png'' (10 * 1024 * 1024)) fresh_cpage) = []"
  using size_limit [of "scan ''image/png'' (10 * 1024 * 1024 + 1)" fresh_cpage]
        size_limit [of "scan ''image/png'' (10 * 1024 * 1024)" fresh_cpage]
  by (simp add: scan_def validTypes_def fresh_cpage_def showError_def showEmptyState_def)

text \<open>
  C8. On both pages, \<^verbatim>\<open>processFile\<close> on a file whose type is none of
  \<^verbatim>\<open>image/png\<close>, \<^verbatim>\<open>image/jpeg\<close>, \<^verbatim>\<open>image/jpg\<close> fails with \<open>InvalidFileType\<close>:
  it reports the error and leaves the stored image, the preview and the disabled state
  of the submit button as they were. The classification page then shows the empty
  (idle) state; the augmentation page changes nothing but the notifications.
\<close>

theorem invalid_type_rejected:
  assumes "file_type f \<notin> {''image/png'', ''image/jpeg'', ''image/jpg''}"
  shows "processFile f s = showError InvalidFileType s
       \<and> notifications (processFile f s) = notifications s @ [InvalidFileType]
       \<and> currentImage (processFile f s) = currentImage s
       \<and> previewImg_src (processFile f s) = previewImg_src s
       \<and> imagePreview_display (processFile f s) = imagePreview_display s
       \<and> uploadArea_display (processFile f s) = uploadArea_display s
       \<and> imageInfo (processFile f s) = imageInfo s
       \<and> reading (processFile f s) = reading s
       \<and> analyzeBtn_disabled (processFile f s) = analyzeBtn_disabled s
       \<and> emptyState_display (processFile f s) = ''flex''
       \<and> resultsContent_display (processFile f s) = ''none''
       \<and> loadingState_display (processFile f s) = ''none''
       \<and> processFile_aug f t = t\<lparr>notifications := notifications t @ [InvalidFileType]\<rparr>"
  using assms
  by (auto simp add: processFile_def showError_def showEmptyState_def validTypes_def
      processFile_aug_def isValidImageFile_def validTypes_aug_def showError_aug_def)

theorem invalid_type_rejected_witness:
  "processFile (scan ''application/pdf'' 1000) fresh_cpage
     = fresh_cpage\<lparr>notifications := [InvalidFileType]\<rparr>
   \<and> processFile_aug (scan ''application/pdf'' 1000) fresh_apage
     = fresh_apage\<lparr>notifications := [InvalidFileType]\<rparr>"
  using invalid_type_rejected [of "scan ''application/pdf'' 1000" fresh_cpage fresh_apage]
  by (simp add: scan_def fresh_cpage_def fresh_apage_def showError_def showEmptyState_def)

section \<open>Properties of the classification renderer\<close>

text \<open>
  Rounding to the nearest binary64 value keeps the sign of a multiple of \<open>2^-1074\<close>, so
  that the comparator \<^verbatim>\<open>b - a\<close> orders binary64 values as \<open>\<le>\<close> does, and the sort
  is a stable sort in descending order.
\<close>

lemma pow2_powi: "pow2 e = 2 powi e"
  by (simp add: pow2_def power_int_def field_simps)

lemma pow2_pos: "0 < pow2 e"
  by (simp add: pow2_powi)

lemma bitlen_lower: "0 < n \<Longrightarrow> 2 ^ (bitlen n - 1) \<le> n"
proof (induction n rule: bitlen.induct)
  case (1 n)
  show ?case
  proof (cases "n = 1")
    case True
    then show ?thesis by (simp add: bitlen.simps[of 1] bitlen.simps[of 0])
  next
    case False
    with 1 have h: "0 < n div 2" by auto
    with 1 have ih: "2 ^ (bitlen (n div 2) - 1) \<le> n div 2" by simp
    from h have "0 < bitlen (n div 2)" by (subst bitlen.simps) simp
    then have "bitlen n - 1 = Suc (bitlen (n div 2) - 1)"
      using 1 by (subst bitlen.simps) simp
    then have "(2::int) ^ (bitlen n - 1) = 2 * 2 ^ (bitlen (n div 2) - 1)" by simp
    also have "\<dots> \<le> 2 * (n div 2)" using ih by simp
    also have "\<dots> \<le> n" by simp
    finally show ?thesis .
  qed
qed

lemma bitlen_upper: "n < 2 ^ bitlen n"
proof (induction n rule: bitlen.induct)
  case (1 n)
  show ?case
  proof (cases "n \<le> 0")
    case True
    then show ?thesis by (subst bitlen.simps) simp
  next
    case False
    with 1 have ih: "n div 2 < 2 ^ bitlen (n div 2)" by simp
    have "n < 2 * (n div 2 + 1)" by simp
    also have "\<dots> \<le> 2 * 2 ^ bitlen (n div 2)" using ih by simp
    also have "\<dots> = 2 ^ bitlen n" using False by (subst (2) bitlen.simps) simp
    finally show ?thesis .
  qed
qed

lemma ilog2_lower:
  assumes "0 < a"
  shows "pow2 (ilog2 a) \<le> a"
proof (cases "1 \<le> a")
  case True
  then have f: "0 < \<lfloor>a\<rfloor>" by simp
  then have "0 < bitlen \<lfloor>a\<rfloor>" by (subst bitlen.simps) simp
  then have "pow2 (ilog2 a) = 2 ^ (bitlen \<lfloor>a\<rfloor> - 1)"
    using True by (simp add: ilog2_def pow2_def nat_diff_distrib' of_nat_diff)
  also have "\<dots> = of_int (2 ^ (bitlen \<lfloor>a\<rfloor> - 1))" by simp
  also have "\<dots> \<le> of_int \<lfloor>a\<rfloor>"
    using bitlen_lower[OF f] by (subst of_int_le_iff)
  also have "\<dots> \<le> a" by simp
  finally show ?thesis .
next
  case False
  let ?m = "bitlen (\<lceil>1 / a\<rceil> - 1)"
  from bitlen_upper[of "\<lceil>1 / a\<rceil> - 1"] have "\<lceil>1 / a\<rceil> \<le> 2 ^ ?m" by simp
  then have "1 / a \<le> of_int (2 ^ ?m)" by (simp add: ceiling_le_iff)
  then have "1 / a \<le> 2 ^ ?m" by simp
  with assms have "1 / 2 ^ ?m \<le> a"
    by (simp add: field_simps)
  moreover have "pow2 (ilog2 a) = 1 / 2 ^ ?m"
    using False by (simp add: ilog2_def pow2_def)
  ultimately show ?thesis by simp
qed

lemma round_half_even_ge: "1 \<le> q \<Longrightarrow> 1 \<le> round_half_even q"
proof -
  assume "1 \<le> q"
  then have "1 \<le> \<lfloor>q\<rfloor>" by simp
  then show ?thesis by (simp add: round_half_even_def Let_def)
qed

lemma sgn_times_pos:
  fixes x P :: rat
  assumes "0 < P"
  shows "(sgn x * P \<le> 0) = (x \<le> 0)" and "(sgn x * P = 0) = (x = 0)"
  using assms by (auto simp: sgn_if mult_le_0_iff not_less)

lemma nearest_double_sign:
  assumes "on_grid x"
  shows "(nearest_double x \<le> 0) = (x \<le> 0)" and "(nearest_double x = 0) = (x = 0)"
proof -
  have pos: "0 < of_int (round_half_even (\<bar>x\<bar> / pow2 (max (ilog2 \<bar>x\<bar>) (- 1022) - 52)))
               * pow2 (max (ilog2 \<bar>x\<bar>) (- 1022) - 52)" (is "0 < of_int ?n * ?u") if "x \<noteq> 0"
  proof -
    from that have a: "0 < \<bar>x\<bar>" by simp
    have "1 \<le> \<bar>x\<bar> / ?u"
    proof (cases "- 1022 \<le> ilog2 \<bar>x\<bar>")
      case True
      then have u: "?u = pow2 (ilog2 \<bar>x\<bar>) / 2 ^ 52"
        by (simp add: pow2_powi power_int_diff max_def)
      have "pow2 (ilog2 \<bar>x\<bar>) \<le> \<bar>x\<bar>" by (rule ilog2_lower[OF a])
      then have "1 \<le> \<bar>x\<bar> / pow2 (ilog2 \<bar>x\<bar>)"
        using pow2_pos[of "ilog2 \<bar>x\<bar>"] by (simp add: field_simps)
      also have "\<dots> \<le> \<bar>x\<bar> / pow2 (ilog2 \<bar>x\<bar>) * 2 ^ 52"
        using a pow2_pos[of "ilog2 \<bar>x\<bar>"] by (simp add: field_simps)
      finally show ?thesis by (simp add: u)
    next
      case False
      then have u: "?u = pow2 (- 1074)" by (simp add: max_def)
      from assms obtain k :: int where k: "x = of_int k * pow2 (- 1074)"
        by (auto simp: on_grid_def)
      with that have "k \<noteq> 0" by auto
      then have "1 \<le> \<bar>k\<bar>" by simp
      then have "(1::rat) \<le> of_int \<bar>k\<bar>" by (subst of_int_1_le_iff)
      moreover have "\<bar>x\<bar> / pow2 (- 1074) = of_int \<bar>k\<bar>"
        using pow2_pos[of "- 1074"] by (simp add: k abs_mult)
      ultimately show ?thesis by (simp add: u)
    qed
    then have "1 \<le> ?n" by (rule round_half_even_ge)
    then have "(0::rat) < of_int ?n" by simp
    with pow2_pos[of "max (ilog2 \<bar>x\<bar>) (- 1022) - 52"] show ?thesis by simp
  qed
  have nd: "nearest_double x = sgn x * (of_int ?n * ?u)" if "x \<noteq> 0"
    using that by (simp add: nearest_double_def Let_def mult.assoc)
  show "(nearest_double x \<le> 0) = (x \<le> 0)"
  proof (cases "x = 0")
    case True
    then show ?thesis by (simp add: nearest_double_def)
  next
    case False
    with pos nd sgn_times_pos(1) show ?thesis by metis
  qed
  show "(nearest_double x = 0) = (x = 0)"
  proof (cases "x = 0")
    case True
    then show ?thesis by (simp add: nearest_double_def)
  next
    case False
    with pos nd sgn_times_pos(2) show ?thesis by metis
  qed
qed

lemma nearest_double_on_grid: "on_grid (nearest_double x)"
proof (cases "x = 0")
  case True
  then show ?thesis by (auto simp: nearest_double_def on_grid_def intro: exI[of _ 0])
next
  case False
  let ?e = "max (ilog2 \<bar>x\<bar>) (- 1022)"
  let ?n = "round_half_even (\<bar>x\<bar> / pow2 (?e - 52))"
  have "0 \<le> ?e + 1022" by simp
  then have "pow2 (?e - 52) = of_int (2 ^ nat (?e + 1022)) * pow2 (- 1074)"
  proof -
    have "pow2 (?e - 52) = 2 powi ((?e + 1022) + (- 1074))" by (simp add: pow2_powi)
    also have "\<dots> = 2 powi (?e + 1022) * 2 powi (- 1074)"
      by (subst power_int_add) simp_all
    also have "2 powi (?e + 1022) = (2::rat) ^ nat (?e + 1022)"
      using \<open>0 \<le> ?e + 1022\<close> by (simp add: power_int_def)
    finally show ?thesis by (simp add: pow2_powi)
  qed
  then have "nearest_double x
      = of_int (sgn (if 0 < x then 1 else - 1) * ?n * 2 ^ nat (?e + 1022)) * pow2 (- 1074)"
    using False by (simp add: nearest_double_def Let_def sgn_if)
  then show ?thesis unfolding on_grid_def by blast
qed

lemma on_grid_diff: "on_grid a \<Longrightarrow> on_grid b \<Longrightarrow> on_grid (b - a)"
proof -
  assume "on_grid a" "on_grid b"
  then obtain k l :: int where "a = of_int k * pow2 (- 1074)" "b = of_int l * pow2 (- 1074)"
    by (auto simp: on_grid_def)
  then have "b - a = of_int (l - k) * pow2 (- 1074)" by (simp add: algebra_simps)
  then show ?thesis unfolding on_grid_def by blast
qed

lemma by_value_desc_le:
  "on_grid (snd p) \<Longrightarrow> on_grid (snd q) \<Longrightarrow> (by_value_desc p q \<le> 0) = (snd q \<le> snd p)"
  using nearest_double_sign(1)[OF on_grid_diff[of "snd p" "snd q"]]
  by (simp add: by_value_desc_def js_minus_def)


lemma insort_cmp_set: "set (insort_cmp cmp x ys) = insert x (set ys)"
  by (induction ys) auto

lemma insort_cmp_length: "length (insort_cmp cmp x ys) = Suc (length ys)"
  by (induction ys) auto

lemma js_sort_set: "set (js_sort cmp xs) = set xs"
  by (induction xs) (simp_all add: js_sort_def insort_cmp_set)

lemma js_sort_length: "length (js_sort cmp xs) = length xs"
  by (induction xs) (simp_all add: js_sort_def insort_cmp_length)

lemma insort_cmp_sorted:
  assumes "sorted_wrt (\<lambda>x y. key y \<le> key x) ys"
    and "\<forall>y \<in> set ys. (cmp x y \<le> 0) = (key y \<le> (key x :: rat))"
  shows "sorted_wrt (\<lambda>x y. key y \<le> key x) (insort_cmp cmp x ys)"
  using assms
proof (induction ys)
  case Nil
  then show ?case by simp
next
  case (Cons y ys)
  show ?case
  proof (cases "cmp x y \<le> 0")
    case True
    with Cons.prems have "key y \<le> key x" by simp
    moreover from Cons.prems have "\<forall>z \<in> set ys. key z \<le> key y" by simp
    ultimately have "\<forall>z \<in> set (y # ys). key z \<le> key x" by auto
    with True Cons.prems show ?thesis by simp
  next
    case False
    with Cons.prems have "key x \<le> key y" by auto
    with False Cons show ?thesis by (auto simp: insort_cmp_set)
  qed
qed

lemma insort_cmp_stable:
  assumes "sorted_wrt (\<lambda>x y. key y \<le> key x) ys"
    and "\<forall>y \<in> set ys. (cmp x y \<le> 0) = (key y \<le> (key x :: rat))"
  shows "filter (\<lambda>p. key p = v) (insort_cmp cmp x ys)
           = (if key x = v then x # filter (\<lambda>p. key p = v) ys else filter (\<lambda>p. key p = v) ys)"
  using assms
proof (induction ys)
  case Nil
  then show ?case by simp
next
  case (Cons y ys)
  show ?case
  proof (cases "cmp x y \<le> 0")
    case True
    then show ?thesis by simp
  next
    case False
    with Cons.prems have "key x < key y" by auto
    with False Cons show ?thesis by auto
  qed
qed

lemma js_sort_sorted_stable:
  assumes "\<forall>x \<in> set xs. \<forall>y \<in> set xs. (cmp x y \<le> 0) = (key y \<le> (key x :: rat))"
  shows "sorted_wrt (\<lambda>x y. key y \<le> key x) (js_sort cmp xs)
       \<and> filter (\<lambda>p. key p = v) (js_sort cmp xs) = filter (\<lambda>p. key p = v) xs"
  using assms
proof (induction xs)
  case Nil
  then show ?case by (simp add: js_sort_def)
next
  case (Cons x xs)
  then have ih: "sorted_wrt (\<lambda>x y. key y \<le> key x) (js_sort cmp xs)"
    "filter (\<lambda>p. key p = v) (js_sort cmp xs) = filter (\<lambda>p. key p = v) xs"
    by simp_all
  from Cons.prems have c: "\<forall>y \<in> set (js_sort cmp xs). (cmp x y \<le> 0) = (key y \<le> key x)"
    by (simp add: js_sort_set)
  have unfold: "js_sort cmp (x # xs) = insort_cmp cmp x (js_sort cmp xs)"
    by (simp add: js_sort_def)
  show ?case
    using insort_cmp_sorted[where key=key and cmp=cmp and x=x, OF ih(1) c]
      insort_cmp_stable[where key=key and cmp=cmp and x=x and v=v, OF ih(1) c] ih(2)
    by (simp add: unfold)
qed

text \<open>
  The bars are in descending order of their probabilities, entries of equal probability
  in the order of the response, whenever the probabilities are binary64 values.
\<close>

lemma sortedProbs_descending:
  assumes "numeric_entries (entries probabilities) = Some ps"
    and "\<forall>p \<in> set ps. on_grid (snd p)"
  shows "sortedProbs probabilities = Some (js_sort by_value_desc ps)"
    and "sorted_wrt (\<lambda>p q. snd q \<le> snd p) (js_sort by_value_desc ps)"
    and "filter (\<lambda>p. snd p = v) (js_sort by_value_desc ps) = filter (\<lambda>p. snd p = v) ps"
    and "set (js_sort by_value_desc ps) = set ps"
    and "length (js_sort by_value_desc ps) = length ps"
proof -
  show "sortedProbs probabilities = Some (js_sort by_value_desc ps)"
    using assms(1) by (simp add: sortedProbs_def)
  have c: "\<forall>x \<in> set ps. \<forall>y \<in> set ps. (by_value_desc x y \<le> 0) = (snd y \<le> snd x)"
    using assms(2) by (simp add: by_value_desc_le)
  from js_sort_sorted_stable[where key=snd and cmp=by_value_desc and v=v, OF c]
  show "sorted_wrt (\<lambda>p q. snd q \<le> snd p) (js_sort by_value_desc ps)"
    and "filter (\<lambda>p. snd p = v) (js_sort by_value_desc ps) = filter (\<lambda>p. snd p = v) ps"
    by simp_all
  show "set (js_sort by_value_desc ps) = set ps" by (rule js_sort_set)
  show "length (js_sort by_value_desc ps) = length ps" by (rule js_sort_length)
qed

text \<open>
  The number model on values whose printed form is well known: 0.1 and 0.1 * 3 as
  binary64 values, \<^verbatim>\<open>(1.005).toFixed(2)\<close>, \<^verbatim>\<open>(0.15).toFixed(1)\<close> and
  \<^verbatim>\<open>(0.25).toFixed(1)\<close>, the rounding of a tie, a negative value that rounds to zero.
\<close>

lemma binary64_examples:
  "nearest_double (1 / 10) = 3602879701896397 / 2 ^ 55"
  "js_times (nearest_double (1 / 10)) 3 = 5404319552844596 / 2 ^ 54"
  "js_times (nearest_double (1005 / 1000)) 100 = 7072058789855231 / 2 ^ 46"
  "toFixed 2 (nearest_double (1005 / 1000)) = ''1.00''"
  "toFixed 1 (nearest_double (15 / 100)) = ''0.1''"
  "toFixed 1 (nearest_double (25 / 100)) = ''0.3''"
  "toFixed 0 (5 / 2) = ''3''"
  "toFixed 1 (- (4 / 100)) = ''-0.0''"
  "percentage 1 (js_literal (15 / 10000)) = Some ''0.1''"
  "percentage 2 (js_literal 1) = Some ''100.00''"
  "percentage 1 (js_literal 0) = Some ''0.0''"
  by code_simp+

text \<open>The sample response, evaluated step by step.\<close>

lemma sample_confidence: "percentage 2 (js_literal (97 / 100)) = Some ''97.00''"
  by code_simp

lemma sample_sortedProbs: "sortedProbs sample_probabilities = Some sample_sorted"
  by code_simp

lemma sample_probabilityBars: "those (map probabilityBar sample_sorted) = Some sample_bars"
  by code_simp

lemma sample_chart_data:
  "those (map (\<lambda>p. percentage 1 (JNum (snd p))) sample_sorted)
     = Some [''97.0'', ''2.0'', ''0.5'', ''0.5'']"
  by code_simp

lemma sample_labels:
  "map (\<lambda>p. formatClassName (fst p)) sample_sorted
     = [''Normal'', ''Adenocarcinoma'', ''Large Cell Carcinoma'', ''Squamous Cell Carcinoma'']"
  by code_simp

lemma sample_colors:
  "map (\<lambda>p. getClassColor (fst p)) sample_sorted
     = [Some ''#27ae60'', Some ''#e74c3c'', Some ''#f39c12'', Some ''#f1c40f'']"
  by code_simp

lemma sample_class:
  "formatClassName ''normal'' = ''Normal''" "getClassIcon ''normal'' = Some CheckMark"
  by code_simp+

lemma sample_probabilities_defined:
  "sample_probabilities \<noteq> JUndefined" "sample_probabilities \<noteq> JNull"
  by (simp_all add: sample_probabilities_def)

lemma sample_createProbabilityBars:
  "createProbabilityBars sample_probabilities s = Done (s\<lparr>probabilityBars := sample_bars\<rparr>)"
  by (simp add: createProbabilityBars_def sample_sortedProbs sample_probabilityBars
      sample_probabilities_defined)

lemma sample_createChart:
  "createChart sample_probabilities s = Done (s\<lparr>chart := Some sample_chart\<rparr>)"
  by (simp del: One_nat_def add: createChart_def sample_sortedProbs sample_chart_data
      sample_labels sample_colors sample_probabilities_defined sample_chart_def)

lemma sample_displayResults:
  "displayResults sample_result s =
     Done (s\<lparr>loadingState_display := ''none'', emptyState_display := ''none'',
             resultsContent_display := ''block'',
             resultClass := ''Normal'', resultConfidence := ''Confidence: 97.00%'',
             resultIcon := Some CheckMark,
             probabilityBars := sample_bars, chart := Some sample_chart\<rparr>)"
  by (simp add: displayResults_def sample_result_def sample_confidence sample_class
      sample_createProbabilityBars sample_createChart)

text \<open>
  Where the percentages are defined, each bar and each chart entry is built from one
  entry of the sorted list.
\<close>

lemma probabilityBars_defined:
  "\<forall>p \<in> set xs. \<bar>js_times (snd p) 100\<bar> < 10 ^ 21 \<Longrightarrow>
     those (map probabilityBar xs)
       = Some (map (\<lambda>p. \<lparr>bar_icon = getClassIcon (fst p), bar_name = formatClassName (fst p),
                           bar_percentage = toFixed 1 (js_times (snd p) 100),
                           bar_color = getClassColor (fst p)\<rparr>) xs)"
  by (induction xs) (simp_all del: One_nat_def add: probabilityBar_def percentage_def Let_def)

lemma percentages_defined:
  "\<forall>p \<in> set xs. \<bar>js_times (snd p) 100\<bar> < 10 ^ 21 \<Longrightarrow>
     those (map (\<lambda>p. percentage 1 (JNum (snd p))) xs)
       = Some (map (\<lambda>p. toFixed 1 (js_times (snd p) 100)) xs)"
  by (induction xs) (simp_all del: One_nat_def add: percentage_def Let_def)

lemma createProbabilityBars_sorted:
  assumes "probabilities \<noteq> JUndefined" and "probabilities \<noteq> JNull"
    and "numeric_entries (entries probabilities) = Some ps"
    and "\<forall>p \<in> set ps. \<bar>js_times (snd p) 100\<bar> < 10 ^ 21"
  shows "createProbabilityBars probabilities s =
     Done (s\<lparr>probabilityBars :=
        map (\<lambda>p. \<lparr>bar_icon = getClassIcon (fst p), bar_name = formatClassName (fst p),
                    bar_percentage = toFixed 1 (js_times (snd p) 100),
                    bar_color = getClassColor (fst p)\<rparr>) (js_sort by_value_desc ps)\<rparr>)"
proof -
  have "\<forall>p \<in> set (js_sort by_value_desc ps). \<bar>js_times (snd p) 100\<bar> < 10 ^ 21"
    using assms(4) by (simp add: js_sort_set)
  from probabilityBars_defined[OF this] assms(1-3) show ?thesis
    by (simp del: One_nat_def add: createProbabilityBars_def sortedProbs_def)
qed

lemma createChart_sorted:
  assumes "probabilities \<noteq> JUndefined" and "probabilities \<noteq> JNull"
    and "numeric_entries (entries probabilities) = Some ps"
    and "\<forall>p \<in> set ps. \<bar>js_times (snd p) 100\<bar> < 10 ^ 21"
  shows "createChart probabilities s =
     Done (s\<lparr>chart := Some
        \<lparr>labels = map (\<lambda>p. formatClassName (fst p)) (js_sort by_value_desc ps),
         chart_data = map (\<lambda>p. toFixed 1 (js_times (snd p) 100)) (js_sort by_value_desc ps),
         backgroundColor = map (\<lambda>p. getClassColor (fst p)) (js_sort by_value_desc ps),
         borderColor = map (\<lambda>p. map_option (\<lambda>color. color @ ''40'') (getClassColor (fst p)))
                         (js_sort by_value_desc ps)\<rparr>\<rparr>)"
proof -
  have "\<forall>p \<in> set (js_sort by_value_desc ps). \<bar>js_times (snd p) 100\<bar> < 10 ^ 21"
    using assms(4) by (simp add: js_sort_set)
  from percentages_defined[OF this] assms(1-3) show ?thesis
    by (simp del: One_nat_def add: createChart_def sortedProbs_def Let_def comp_def)
qed

lemma displayResults_sorted:
  assumes "js_get data ''class'' = JStr className"
    and "js_get data ''confidence'' = JNum c" and "\<bar>js_times c 100\<bar> < 10 ^ 21"
    and "js_get data ''probabilities'' \<noteq> JUndefined"
    and "js_get data ''probabilities'' \<noteq> JNull"
    and "numeric_entries (entries (js_get data ''probabilities'')) = Some ps"
    and "\<forall>p \<in> set ps. \<bar>js_times (snd p) 100\<bar> < 10 ^ 21"
  shows "displayResults data s =
     Done (s\<lparr>loadingState_display := ''none'', emptyState_display := ''none'',
             resultsContent_display := ''block'',
             resultClass := formatClassName className,
             resultConfidence := ''Confidence: '' @ toFixed 2 (js_times c 100) @ ''%'',
             resultIcon := getClassIcon className,
             probabilityBars :=
               map (\<lambda>p. \<lparr>bar_icon = getClassIcon (fst p), bar_name = formatClassName (fst p),
                           bar_percentage = toFixed 1 (js_times (snd p) 100),
                           bar_color = getClassColor (fst p)\<rparr>) (js_sort by_value_desc ps),
             chart := Some
               \<lparr>labels = map (\<lambda>p. formatClassName (fst p)) (js_sort by_value_desc ps),
                chart_data = map (\<lambda>p. toFixed 1 (js_times (snd p) 100))
                               (js_sort by_value_desc ps),
                backgroundColor = map (\<lambda>p. getClassColor (fst p)) (js_sort by_value_desc ps),
                borderColor = map (\<lambda>p. map_option (\<lambda>color. color @ ''40'')
                                              (getClassColor (fst p)))
                                (js_sort by_value_desc ps)\<rparr>\<rparr>)"
  using assms(1-3)
  by (simp del: One_nat_def
      add: displayResults_def percentage_def Let_def
        createProbabilityBars_sorted[OF assms(4-7)] createChart_sorted[OF assms(4-7)])

text \<open>
  The response that lists the sample probabilities in another order, evaluated step by
  step.
\<close>

lemma shuffled_fields:
  "js_get shuffled_result ''class'' = JStr ''normal''"
  "js_get shuffled_result ''confidence'' = JNum (nearest_double (97 / 100))"
  "js_get shuffled_result ''probabilities'' \<noteq> JUndefined"
  "js_get shuffled_result ''probabilities'' \<noteq> JNull"
  "numeric_entries (entries (js_get shuffled_result ''probabilities'')) = Some shuffled_entries"
  by (simp_all add: shuffled_result_def shuffled_probabilities_def shuffled_entries_def
      js_literal_def)

lemma sample_percentages:
  "toFixed 1 (js_times (nearest_double (97 / 100)) 100) = ''97.0''"
  "toFixed 1 (js_times (nearest_double (2 / 100)) 100) = ''2.0''"
  "toFixed 1 (js_times (nearest_double (5 / 1000)) 100) = ''0.5''"
  "toFixed 2 (js_times (nearest_double (97 / 100)) 100) = ''97.00''"
  "\<bar>js_times (nearest_double (97 / 100)) 100\<bar> < 10 ^ 21"
  "\<bar>js_times (nearest_double (2 / 100)) 100\<bar> < 10 ^ 21"
  "\<bar>js_times (nearest_double (5 / 1000)) 100\<bar> < 10 ^ 21"
  by code_simp+

lemma class_rendering:
  "formatClassName ''normal'' = ''Normal''"
  "formatClassName ''adenocarcinoma'' = ''Adenocarcinoma''"
  "formatClassName ''large.cell.carcinoma'' = ''Large Cell Carcinoma''"
  "formatClassName ''squamous.cell.carcinoma'' = ''Squamous Cell Carcinoma''"
  "getClassIcon ''normal'' = Some CheckMark"
  "getClassIcon ''adenocarcinoma'' = Some RedCircle"
  "getClassIcon ''large.cell.carcinoma'' = Some OrangeCircle"
  "getClassIcon ''squamous.cell.carcinoma'' = Some YellowCircle"
  "getClassColor ''normal'' = Some ''#27ae60''"
  "getClassColor ''adenocarcinoma'' = Some ''#e74c3c''"
  "getClassColor ''large.cell.carcinoma'' = Some ''#f39c12''"
  "getClassColor ''squamous.cell.carcinoma'' = Some ''#f1c40f''"
  by code_simp+

lemma shuffled_sorted:
  "js_sort by_value_desc shuffled_entries =
     [(''normal'', nearest_double (97 / 100)), (''adenocarcinoma'', nearest_double (2 / 100)),
      (''squamous.cell.carcinoma'', nearest_double (5 / 1000)),
      (''large.cell.carcinoma'', nearest_double (5 / 1000))]"
  by code_simp

lemma shuffled_binary64:
  "\<forall>p \<in> set shuffled_entries. on_grid (snd p) \<and> \<bar>js_times (snd p) 100\<bar> < 10 ^ 21"
  unfolding shuffled_entries_def
  by (simp only: list.set ball_simps snd_conv sample_percentages nearest_double_on_grid
      simp_thms)

text \<open>
  C7. \<^verbatim>\<open>displayResults\<close> shows the result panel with the class, with the confidence
  times 100 printed with two decimals, and with one bar per entry of the probability
  mapping: the bars are in descending order of the probabilities, entries of equal
  probability in the order of the response, and each percentage is the probability times
  100 printed with one decimal; the chart has the same order. This holds for every
  response whose class is a string and whose confidence and probabilities are binary64
  numbers with percentages below \<open>10^21\<close>. For the sample response the bars are
  normal (97.0), adenocarcinoma (2.0), large.cell.carcinoma (0.5),
  squamous.cell.carcinoma (0.5), and the text is "Confidence: 97.00%".
\<close>

theorem probabilities_rendering:
  assumes "js_get data ''class'' = JStr className"
    and "js_get data ''confidence'' = JNum c" and "\<bar>js_times c 100\<bar> < 10 ^ 21"
    and "js_get data ''probabilities'' \<noteq> JUndefined"
    and "js_get data ''probabilities'' \<noteq> JNull"
    and "numeric_entries (entries (js_get data ''probabilities'')) = Some ps"
    and "\<forall>p \<in> set ps. on_grid (snd p) \<and> \<bar>js_times (snd p) 100\<bar> < 10 ^ 21"
  shows "displayResults data s =
     Done (s\<lparr>loadingState_display := ''none'', emptyState_display := ''none'',
             resultsContent_display := ''block'',
             resultClass := formatClassName className,
             resultConfidence := ''Confidence: '' @ toFixed 2 (js_times c 100) @ ''%'',
             resultIcon := getClassIcon className,
             probabilityBars :=
               map (\<lambda>p. \<lparr>bar_icon = getClassIcon (fst p), bar_name = formatClassName (fst p),
                           bar_percentage = toFixed 1 (js_times (snd p) 100),
                           bar_color = getClassColor (fst p)\<rparr>) (js_sort by_value_desc ps),
             chart := Some
               \<lparr>labels = map (\<lambda>p. formatClassName (fst p)) (js_sort by_value_desc ps),
                chart_data = map (\<lambda>p. toFixed 1 (js_times (snd p) 100))
                               (js_sort by_value_desc ps),
                backgroundColor = map (\<lambda>p. getClassColor (fst p)) (js_sort by_value_desc ps),
                borderColor = map (\<lambda>p. map_option (\<lambda>color. color @ ''40'')
                                              (getClassColor (fst p)))
                                (js_sort by_value_desc ps)\<rparr>\<rparr>)
   \<and> createProbabilityBars (js_get data ''probabilities'') s =
       Done (s\<lparr>probabilityBars :=
          map (\<lambda>p. \<lparr>bar_icon = getClassIcon (fst p), bar_name = formatClassName (fst p),
                      bar_percentage = toFixed 1 (js_times (snd p) 100),
                      bar_color = getClassColor (fst p)\<rparr>) (js_sort by_value_desc ps)\<rparr>)
   \<and> sorted_wrt (\<lambda>p q. snd q \<le> snd p) (js_sort by_value_desc ps)
   \<and> (\<forall>v. filter (\<lambda>p. snd p = v) (js_sort by_value_desc ps) = filter (\<lambda>p. snd p = v) ps)
   \<and> length (js_sort by_value_desc ps) = length ps
   \<and> displayResults sample_result s =
       Done (s\<lparr>loadingState_display := ''none'', emptyState_display := ''none'',
               resultsContent_display := ''block'',
               resultClass := ''Normal'', resultConfidence := ''Confidence: 97.00%'',
               resultIcon := Some CheckMark,
               probabilityBars := sample_bars, chart := Some sample_chart\<rparr>)
   \<and> map bar_name sample_bars
       = [''Normal'', ''Adenocarcinoma'', ''Large Cell Carcinoma'', ''Squamous Cell Carcinoma'']
   \<and> map bar_percentage sample_bars = [''97.0'', ''2.0'', ''0.5'', ''0.5'']"
proof -
  from assms(7) have g: "\<forall>p \<in> set ps. on_grid (snd p)"
    and r: "\<forall>p \<in> set ps. \<bar>js_times (snd p) 100\<bar> < 10 ^ 21"
    by simp_all
  note d = displayResults_sorted[OF assms(1-6) r]
  note b = createProbabilityBars_sorted[OF assms(4-6) r]
  note o = sortedProbs_descending[OF assms(6) g]
  have sample: "map bar_name sample_bars
       = [''Normal'', ''Adenocarcinoma'', ''Large Cell Carcinoma'', ''Squamous Cell Carcinoma'']"
    "map bar_percentage sample_bars = [''97.0'', ''2.0'', ''0.5'', ''0.5'']"
    by (simp_all add: sample_bars_def)
  show ?thesis
    unfolding d b sample_displayResults sample
    using o(2,3,5) by simp
qed

text \<open>
  The response that lists squamous.cell.carcinoma (0.005), adenocarcinoma (0.02), normal
  (0.97), large.cell.carcinoma (0.005) in this order is rendered in descending order, the
  two ties in the order of the response.
\<close>

theorem probabilities_rendering_witness:
  "displayResults shuffled_result fresh_cpage =
     Done (fresh_cpage\<lparr>loadingState_display := ''none'', emptyState_display := ''none'',
             resultsContent_display := ''block'',
             resultClass := ''Normal'', resultConfidence := ''Confidence: 97.00%'',
             resultIcon := Some CheckMark,
             probabilityBars := shuffled_bars, chart := Some shuffled_chart\<rparr>)
   \<and> map fst shuffled_entries
       = [''squamous.cell.carcinoma'', ''adenocarcinoma'', ''normal'', ''large.cell.carcinoma'']
   \<and> map fst (js_sort by_value_desc shuffled_entries)
       = [''normal'', ''adenocarcinoma'', ''squamous.cell.carcinoma'', ''large.cell.carcinoma'']
   \<and> sorted_wrt (\<lambda>p q. snd q \<le> snd p) (js_sort by_value_desc shuffled_entries)
   \<and> map bar_name shuffled_bars
       = [''Normal'', ''Adenocarcinoma'', ''Squamous Cell Carcinoma'', ''Large Cell Carcinoma'']
   \<and> map bar_percentage shuffled_bars = [''97.0'', ''2.0'', ''0.5'', ''0.5'']"
proof -
  note t = probabilities_rendering
    [where s=fresh_cpage, OF shuffled_fields(1,2) sample_percentages(5) shuffled_fields(3-5)
       shuffled_binary64]
  from t have "displayResults shuffled_result fresh_cpage =
     Done (fresh_cpage\<lparr>loadingState_display := ''none'', emptyState_display := ''none'',
             resultsContent_display := ''block'',
             resultClass := ''Normal'', resultConfidence := ''Confidence: 97.00%'',
             resultIcon := Some CheckMark,
             probabilityBars := shuffled_bars, chart := Some shuffled_chart\<rparr>)"
    unfolding shuffled_sorted list.map fst_conv snd_conv sample_percentages class_rendering
    by (simp add: shuffled_bars_def shuffled_chart_def)
  moreover from t
  have "sorted_wrt (\<lambda>p q. snd q \<le> snd p) (js_sort by_value_desc shuffled_entries)"
    by blast
  ultimately show ?thesis
    by (simp add: shuffled_sorted) (simp add: shuffled_entries_def shuffled_bars_def)
qed

section \<open>Properties of the connection\<close>

lemma poll_le: "attempts \<le> 50 \<Longrightarrow> poll avail attempts \<le> 50"
  by (induction avail attempts rule: poll.induct) (subst poll.simps, auto)

lemma poll_before: "attempts \<le> k \<Longrightarrow> k < poll avail attempts \<Longrightarrow> \<not> avail k"
proof (induction avail attempts rule: poll.induct)
  case (1 avail attempts)
  show ?case
  proof (cases "\<not> avail attempts \<and> attempts < 50")
    case True
    then have eq: "poll avail attempts = poll avail (Suc attempts)"
      by (subst poll.simps) simp
    show ?thesis
    proof (cases "k = attempts")
      case True
      with \<open>\<not> avail attempts \<and> attempts < 50\<close> show ?thesis by simp
    next
      case False
      with 1 True eq show ?thesis by auto
    qed
  next
    case False
    then have "poll avail attempts = attempts"
      by (subst poll.simps) auto
    with 1 show ?thesis by simp
  qed
qed

lemma poll_stop: "avail (poll avail attempts) \<or> 50 \<le> poll avail attempts"
  by (induction avail attempts rule: poll.induct) (subst (1 2) poll.simps, auto)

lemma poll_now: "avail 0 \<Longrightarrow> poll avail 0 = 0"
  by (subst poll.simps) simp

lemma connects_iff: "connects e \<longleftrightarrow> (\<exists>k\<le>50. factory_at e k) \<and> connect_ok e"
proof -
  let ?n = "poll (factory_at e) 0"
  have le: "?n \<le> 50" by (rule poll_le) simp
  have "factory_at e ?n \<longleftrightarrow> (\<exists>k\<le>50. factory_at e k)"
  proof
    assume "factory_at e ?n" with le show "\<exists>k\<le>50. factory_at e k" by blast
  next
    assume "\<exists>k\<le>50. factory_at e k"
    then obtain k where k: "k \<le> 50" "factory_at e k" by blast
    show "factory_at e ?n"
    proof (rule ccontr)
      assume n: "\<not> factory_at e ?n"
      with poll_stop[of "factory_at e" 0] le have "?n = 50" by auto
      with k n have "k < ?n" by (cases "k = 50") auto
      with poll_before[of 0 k "factory_at e"] k show False by simp
    qed
  qed
  then show ?thesis by (simp add: connects_def)
qed

text \<open>
  C9. On both pages the polling loop of \<^verbatim>\<open>initializeGradioClient\<close> ends after at
  most 50 iterations, each a sleep of 100 ms (at most 5 seconds in all), at the first
  check at which the client factory is there. The acquisition fails with
  \<open>ConnectionUnavailable\<close> (the handle stays absent, the status becomes the error
  status) exactly when the factory is missing at every one of the checks or the connect
  call rejects; otherwise the handle is set and nothing is reported.
\<close>

theorem connection_acquisition:
  "poll (factory_at e) 0 \<le> 50
   \<and> poll_wait_ms (factory_at e) = 100 * poll (factory_at e) 0
   \<and> poll_wait_ms (factory_at e) \<le> 5000
   \<and> (\<forall>k < poll (factory_at e) 0. \<not> factory_at e k)
   \<and> (factory_at e (poll (factory_at e) 0) \<or> poll (factory_at e) 0 = 50)
   \<and> (connects e \<longleftrightarrow> (\<exists>k\<le>50. factory_at e k) \<and> connect_ok e)
   \<and> (\<not> connects e \<longrightarrow>
        gradioClient (initializeGradioClient e s) = gradioClient s
        \<and> notifications (initializeGradioClient e s) = notifications s @ [ConnectionUnavailable]
        \<and> status_text (initializeGradioClient e s) = ''API connection failed''
        \<and> status_type (initializeGradioClient e s) = ''error''
        \<and> gradioClient (initializeGradioClient_aug e t) = gradioClient t
        \<and> notifications (initializeGradioClient_aug e t)
            = notifications t @ [ConnectionUnavailable]
        \<and> status_text (initializeGradioClient_aug e t) = ''API connection failed''
        \<and> status_type (initializeGradioClient_aug e t) = ''error'')
   \<and> (connects e \<longrightarrow>
        gradioClient (initializeGradioClient e s) = Some spaceUrl
        \<and> notifications (initializeGradioClient e s) = notifications s
        \<and> gradioClient (initializeGradioClient_aug e t) = Some spaceUrl_aug
        \<and> notifications (initializeGradioClient_aug e t) = notifications t)"
proof -
  have le: "poll (factory_at e) 0 \<le> 50" by (rule poll_le) simp
  have before: "\<forall>k < poll (factory_at e) 0. \<not> factory_at e k"
    using poll_before[of 0 _ "factory_at e"] by simp
  have stop: "factory_at e (poll (factory_at e) 0) \<or> poll (factory_at e) 0 = 50"
    using poll_stop[of "factory_at e" 0] le by auto
  have fail: "\<not> connects e \<longrightarrow>
        gradioClient (initializeGradioClient e s) = gradioClient s
        \<and> notifications (initializeGradioClient e s) = notifications s @ [ConnectionUnavailable]
        \<and> status_text (initializeGradioClient e s) = ''API connection failed''
        \<and> status_type (initializeGradioClient e s) = ''error''
        \<and> gradioClient (initializeGradioClient_aug e t) = gradioClient t
        \<and> notifications (initializeGradioClient_aug e t)
            = notifications t @ [ConnectionUnavailable]
        \<and> status_text (initializeGradioClient_aug e t) = ''API connection failed''
        \<and> status_type (initializeGradioClient_aug e t) = ''error''"
    by (simp add: initializeGradioClient_def initializeGradioClient_aug_def showError_def
        showEmptyState_def showError_aug_def updateStatus_def updateStatus_aug_def)
  have ok: "connects e \<longrightarrow>
        gradioClient (initializeGradioClient e s) = Some spaceUrl
        \<and> notifications (initializeGradioClient e s) = notifications s
        \<and> gradioClient (initializeGradioClient_aug e t) = Some spaceUrl_aug
        \<and> notifications (initializeGradioClient_aug e t) = notifications t"
    by (simp add: initializeGradioClient_def initializeGradioClient_aug_def
        updateStatus_def updateStatus_aug_def)
  from le before stop connects_iff[of e] fail ok show ?thesis
    by (simp add: poll_wait_ms_def)
qed

theorem connection_acquisition_witness:
  "poll (factory_at never_loaded) 0 = 50
   \<and> poll_wait_ms (factory_at never_loaded) = 5000
   \<and> \<not> connects never_loaded
   \<and> notifications (initializeGradioClient never_loaded fresh_cpage) = [ConnectionUnavailable]
   \<and> gradioClient (initializeGradioClient never_loaded fresh_cpage) = None
   \<and> notifications (initializeGradioClient_aug never_loaded fresh_apage)
       = [ConnectionUnavailable]"
  using connection_acquisition [of never_loaded fresh_cpage fresh_apage]
  by (simp add: never_loaded_def fresh_cpage_def fresh_apage_def)

section \<open>Properties of a failed classification request\<close>

lemma interpret_Inr:
  "interpret_response result = Inr api \<Longrightarrow>
     truthy (js_get api ''class'') \<and> truthy (js_get api ''probabilities'')"
  by (auto simp: interpret_response_def Let_def split: if_splits)

lemma request_Inr:
  "request e held s = Inr api \<Longrightarrow>
     truthy (js_get api ''class'') \<and> truthy (js_get api ''probabilities'')"
  by (auto simp: request_def split: if_splits sum.splits dest: interpret_Inr)

lemma createProbabilityBars_Raised:
  "truthy p \<Longrightarrow> createProbabilityBars p s \<noteq> Raised err s2"
  by (auto simp: createProbabilityBars_def split: option.splits)

lemma createChart_Raised:
  "truthy p \<Longrightarrow> createChart p s \<noteq> Raised err s2"
  by (auto simp: createChart_def Let_def split: option.splits)

lemma and_then_Raised:
  "and_then x f = Raised err s2 \<Longrightarrow>
     x = Raised err s2 \<or> (\<exists>s1. x = Done s1 \<and> f s1 = Raised err s2)"
  by (cases x) auto

text \<open>
  With a probability mapping present, \<^verbatim>\<open>displayResults\<close> can only raise where it
  formats the class label, before it has written any content.
\<close>

lemma displayResults_Raised:
  assumes "displayResults api s = Raised err s2" and "truthy (js_get api ''probabilities'')"
  shows "s2 = s\<lparr>loadingState_display := ''none'', emptyState_display := ''none'',
                resultsContent_display := ''block''\<rparr>"
  using assms
  by (auto simp: displayResults_def Let_def createProbabilityBars_Raised createChart_Raised
      split: jsval.splits option.splits dest!: and_then_Raised)

lemma analyzeImage_failure:
  assumes "analyzeImage e s = Some (Some err, s')"
  shows "\<exists>s1. s' = analysis_failed err s1
           \<and> resultClass s1 = resultClass s \<and> resultConfidence s1 = resultConfidence s
           \<and> resultIcon s1 = resultIcon s \<and> probabilityBars s1 = probabilityBars s
           \<and> chart s1 = chart s"
proof -
  from assms have img: "currentImage s \<noteq> None"
    by (auto simp: analyzeImage_def split: if_splits)
  define s0 where "s0 = (ensureGradioConnection e (analyzeImage_begin s))
                          \<lparr>pending := pending (analyzeImage_begin s) - 1\<rparr>"
  have keep: "resultClass s0 = resultClass s \<and> resultConfidence s0 = resultConfidence s
           \<and> resultIcon s0 = resultIcon s \<and> probabilityBars s0 = probabilityBars s
           \<and> chart s0 = chart s"
    using img
    by (simp add: s0_def ensureGradioConnection_def initializeGradioClient_def
        analyzeImage_begin_def showLoadingState_def showError_def showEmptyState_def
        updateStatus_def Let_def)
  from assms img have fin:
    "(case request e (gradioClient (analyzeImage_begin s) \<noteq> None) s0 of
        Inl err \<Rightarrow> Some (Some err, analysis_failed err s0)
      | Inr apiResult \<Rightarrow>
          (case displayResults apiResult s0 of
             Done s2 \<Rightarrow> Some (None, updateStatus ''Analysis complete'' ''success'' s2)
           | Raised err s2 \<Rightarrow> Some (Some err, analysis_failed err s2)
           | Unsupported \<Rightarrow> None)) = Some (Some err, s')"
    unfolding analyzeImage_def analyzeImage_finish_def Let_def s0_def by simp
  show ?thesis
  proof (cases "request e (gradioClient (analyzeImage_begin s) \<noteq> None) s0")
    case (Inl x)
    with fin keep show ?thesis by auto
  next
    case (Inr api)
    then have tr: "truthy (js_get api ''probabilities'')" by (auto dest: request_Inr)
    from fin Inr obtain s2 where r: "displayResults api s0 = Raised err s2"
      and s': "s' = analysis_failed err s2"
      by (auto split: outcome.splits)
    from displayResults_Raised[OF r tr] keep s' show ?thesis by auto
  qed
qed

text \<open>Every error the request can raise is caught and reported.\<close>

lemma failed_request_reported:
  assumes "currentImage s \<noteq> None"
    and "request e (gradioClient (analyzeImage_begin s) \<noteq> None)
           ((ensureGradioConnection e (analyzeImage_begin s))
              \<lparr>pending := pending (analyzeImage_begin s) - 1\<rparr>) = Inl err"
  shows "\<exists>s'. analyzeImage e s = Some (Some err, s')"
  using assms by (simp add: analyzeImage_def analyzeImage_finish_def Let_def)

lemma shown_after_success:
  "analyzeImage (service_up (JObj [(''data'', JArr [sample_result])])) selected_cpage
     = Some (None, shown_cpage)"
  by (simp add: analyzeImage_def analyzeImage_begin_def analyzeImage_finish_def
      selected_cpage_def processFile_def scan_def validTypes_def fresh_cpage_def
      displayImagePreview_def updateStatus_def showLoadingState_def
      ensureGradioConnection_def initializeGradioClient_def connects_def poll_now
      service_up_def request_def interpret_response_def elem_def Let_def
      sample_displayResults shown_cpage_def)
     (simp add: sample_result_def sample_probabilities_def)

lemma remote_error_after_success:
  "analyzeImage (service_up error_response) shown_cpage
     = Some (Some (RemoteError (JStr ''model unavailable'')),
             shown_cpage\<lparr>loadingState_display := ''none'', resultsContent_display := ''none'',
                          emptyState_display := ''flex'', status_text := ''Error'',
                          status_type := ''error'',
                          notifications :=
                            [RequestFailed (RemoteError (JStr ''model unavailable''))]\<rparr>)"
  by (simp add: analyzeImage_def analyzeImage_begin_def analyzeImage_finish_def
      shown_cpage_def fresh_cpage_def scan_def
      updateStatus_def showLoadingState_def showError_def showEmptyState_def
      ensureGradioConnection_def analysis_failed_def
      service_up_def request_def interpret_response_def elem_def Let_def error_response_def)

text \<open>
  C2, as the code has it. For every failed classification request (whatever error the
  \<^verbatim>\<open>catch\<close> block of \<^verbatim>\<open>analyzeImage\<close> handles: no connection, a rejected call, a
  \<open>RemoteError\<close>, a \<open>MalformedResponse\<close>), the content of the result panel (class,
  confidence, icon, bars, chart) is left as it was and the failure is reported as a
  notification; but the result panel itself is hidden, the page showing the empty state
  and the error status.
\<close>

theorem failed_request_keeps_content:
  assumes "analyzeImage e s = Some (Some err, s')"
  shows "resultClass s' = resultClass s \<and> resultConfidence s' = resultConfidence s
       \<and> resultIcon s' = resultIcon s \<and> probabilityBars s' = probabilityBars s
       \<and> chart s' = chart s
       \<and> resultsContent_display s' = ''none'' \<and> emptyState_display s' = ''flex''
       \<and> loadingState_display s' = ''none''
       \<and> notifications s' \<noteq> [] \<and> last (notifications s') = RequestFailed err
       \<and> status_text s' = ''Error'' \<and> status_type s' = ''error''"
proof -
  from analyzeImage_failure[OF assms] obtain s1 where
    "s' = analysis_failed err s1" and
    "resultClass s1 = resultClass s \<and> resultConfidence s1 = resultConfidence s
       \<and> resultIcon s1 = resultIcon s \<and> probabilityBars s1 = probabilityBars s
       \<and> chart s1 = chart s"
    by blast
  then show ?thesis
    by (simp add: analysis_failed_def showError_def showEmptyState_def updateStatus_def)
qed

theorem failed_request_keeps_content_witness:
  "analyzeImage (service_up error_response) shown_cpage
     = Some (Some (RemoteError (JStr ''model unavailable'')),
             shown_cpage\<lparr>loadingState_display := ''none'', resultsContent_display := ''none'',
                          emptyState_display := ''flex'', status_text := ''Error'',
                          status_type := ''error'',
                          notifications :=
                            [RequestFailed (RemoteError (JStr ''model unavailable''))]\<rparr>)
   \<and> probabilityBars
        (shown_cpage\<lparr>loadingState_display := ''none'', resultsContent_display := ''none'',
                     emptyState_display := ''flex'', status_text := ''Error'',
                     status_type := ''error'',
                     notifications :=
                       [RequestFailed (RemoteError (JStr ''model unavailable''))]\<rparr>)
       = probabilityBars shown_cpage"
  using failed_request_keeps_content [OF remote_error_after_success] remote_error_after_success
  by simp

text \<open>
  C2 as the specification states it fails: the page shows the result of a successful
  analysis of the sample response; the next request is answered with
  \<^verbatim>\<open>{error: "model unavailable"}\<close> and fails with \<open>RemoteError\<close>; the result panel,
  visible before, is hidden after.
\<close>

theorem failed_request_hides_results:
  "analyzeImage (service_up (JObj [(''data'', JArr [sample_result])])) selected_cpage
     = Some (None, shown_cpage)
   \<and> resultsContent_display shown_cpage = ''block''
   \<and> map_option (\<lambda>r. (fst r, resultsContent_display (snd r)))
        (analyzeImage (service_up error_response) shown_cpage)
     = Some (Some (RemoteError (JStr ''model unavailable'')), ''none'')"
  by (simp add: shown_after_success remote_error_after_success) (simp add: shown_cpage_def)

section \<open>Properties of the submit control\<close>

text \<open>
  C5 fails on the classification page. With an image selected, two clicks on Analyze
  before any response leave two calls of \<^verbatim>\<open>analyzeImage\<close> in flight, the button
  still enabled: \<^verbatim>\<open>showLoadingState\<close> does not disable it. On the augmentation page
  \<^verbatim>\<open>showLoading\<close> disables the button, so that the second click starts nothing; but
  after a failed request (here a response without data) the button is still disabled,
  and a file selected while a request is in flight enables the button again, so that
  the next click starts a second request.
\<close>

theorem double_submit:
  "map_option (\<lambda>s. (pending s, analyzeBtn_disabled s))
     (crun [SelectFile (scan ''image/png'' 1000), ClickAnalyze, ClickAnalyze] fresh_cpage)
     = Some (2, False)
   \<and> (pending (arun [ASelectFile (scan ''image/png'' 1000), ClickAugment, ClickAugment]
                fresh_apage),
       augmentBtn_disabled (arun [ASelectFile (scan ''image/png'' 1000), ClickAugment,
                                  ClickAugment] fresh_apage))
     = (1, True)
   \<and> (pending (arun [ASelectFile (scan ''image/png'' 1000), ClickAugment,
                      ASettle (service_up (JObj []))] fresh_apage),
       augmentBtn_disabled (arun [ASelectFile (scan ''image/png'' 1000), ClickAugment,
                                  ASettle (service_up (JObj []))] fresh_apage))
     = (0, True)
   \<and> pending (arun [ASelectFile (scan ''image/png'' 1000), ClickAugment,
                     ASelectFile (scan ''image/png'' 2000), ClickAugment] fresh_apage)
     = 2"
  by (simp add: cstep_def processFile_def scan_def validTypes_def fresh_cpage_def
      displayImagePreview_def updateStatus_def analyzeImage_begin_def showLoadingState_def
      arun_def astep_def processFile_aug_def isValidImageFile_def validTypes_aug_def
      fresh_apage_def updateStatus_aug_def generateAugmentations_begin_def showLoading_def
      generateAugmentations_finish_def test_connection_def initializeGradioClient_aug_def
      connects_def poll_now service_up_def request_aug_def interpret_augmentations_def
      augmentation_failed_def showError_aug_def Let_def)

section \<open>Properties of the augmentation response handling\<close>

lemma interpret_augmentations_cases:
  "(interpret_augmentations result = Inl (MalformedResponse NoValidResponse) \<longleftrightarrow>
      \<not> (truthy result \<and> truthy (js_get result ''data'')))
   \<and> (interpret_augmentations result
        = Inl (MalformedResponse (InvalidItemCount (js_length (js_get result ''data'')))) \<longleftrightarrow>
        truthy result \<and> truthy (js_get result ''data'')
        \<and> (\<forall>items. js_get result ''data'' = JArr items \<longrightarrow> items = []))
   \<and> (interpret_augmentations result = Inr urls \<longleftrightarrow>
        truthy result
        \<and> (\<exists>items. js_get result ''data'' = JArr items \<and> items \<noteq> []
                   \<and> urls = imageUrls items))"
  unfolding interpret_augmentations_def
  by (cases "js_get result ''data''") (auto simp: Suc_le_eq split: if_splits)

lemma interpret_augmentations_Inl:
  "interpret_augmentations result = Inl err \<Longrightarrow> \<exists>r. err = MalformedResponse r"
  by (auto simp: interpret_augmentations_def split: if_splits jsval.splits)

lemma request_aug_response:
  assumes "currentImage s \<noteq> None" and "read_ok e" and "gradioClient s \<noteq> None"
    and "predict e = Inr result"
  shows "request_aug e held s = interpret_augmentations result"
  using assms by (auto simp: request_aug_def)

lemma test_connection_fields:
  assumes "gradioClient s \<noteq> None \<or> connects e"
  shows "gradioClient (test_connection e s) \<noteq> None"
    and "currentImage (test_connection e s) = currentImage s"
    and "notifications (test_connection e s) = notifications s"
    and "slots (test_connection e s) = slots s"
  using assms
  by (auto simp: test_connection_def initializeGradioClient_aug_def updateStatus_aug_def Let_def)

lemma finish_response:
  assumes "currentImage s \<noteq> None" and "read_ok e"
    and "gradioClient s \<noteq> None \<or> connects e" and "predict e = Inr result"
  shows "generateAugmentations_finish e s =
     (case interpret_augmentations result of
        Inl err \<Rightarrow>
          (Some err,
           augmentation_failed err (test_connection e (s\<lparr>pending := pending s - 1\<rparr>)))
      | Inr urls \<Rightarrow>
          (None, updateStatus_aug ''success'' ''Complete''
                   (displayAugmentations urls
                      ((test_connection e (s\<lparr>pending := pending s - 1\<rparr>))
                         \<lparr>augmentationResults := Some urls\<rparr>))))"
proof -
  let ?s0 = "s\<lparr>pending := pending s - 1\<rparr>"
  have c: "gradioClient ?s0 \<noteq> None \<or> connects e" using assms(3) by simp
  have "request_aug e held (test_connection e ?s0) = interpret_augmentations result" for held
    using assms(1,2,4) test_connection_fields(1,2)[OF c]
    by (intro request_aug_response) simp_all
  then show ?thesis
    unfolding generateAugmentations_finish_def Let_def by simp
qed

lemma begin_fields:
  assumes "currentImage s \<noteq> None"
  shows "currentImage (generateAugmentations_begin s) = currentImage s"
    and "gradioClient (generateAugmentations_begin s) = gradioClient s"
    and "notifications (generateAugmentations_begin s) = notifications s"
    and "slots (generateAugmentations_begin s) = slots s"
  using assms
  by (auto simp: generateAugmentations_begin_def updateStatus_aug_def showLoading_def)

lemma generateAugmentations_started:
  "currentImage s \<noteq> None \<Longrightarrow>
     generateAugmentations e s = generateAugmentations_finish e (generateAugmentations_begin s)"
  by (auto simp: generateAugmentations_def)

lemma generateAugmentations_outcome:
  assumes "currentImage s \<noteq> None" and "read_ok e"
    and "gradioClient s \<noteq> None \<or> connects e" and "predict e = Inr result"
  shows "fst (generateAugmentations e s)
           = (case interpret_augmentations result of Inl err \<Rightarrow> Some err | Inr urls \<Rightarrow> None)"
proof -
  let ?b = "generateAugmentations_begin s"
  have "generateAugmentations e s = generateAugmentations_finish e ?b"
    using assms(1) by (rule generateAugmentations_started)
  moreover have "currentImage ?b \<noteq> None" "gradioClient ?b \<noteq> None \<or> connects e"
    using assms(1,3) by (simp_all add: begin_fields)
  ultimately show ?thesis
    using finish_response[of ?b e result] assms(2,4) by (simp split: sum.splits)
qed

lemma generateAugmentations_success:
  assumes "currentImage s \<noteq> None" and "read_ok e"
    and "gradioClient s \<noteq> None \<or> connects e" and "predict e = Inr result"
    and "interpret_augmentations result = Inr urls"
  shows "fst (generateAugmentations e s) = None"
    and "augmentationResults (snd (generateAugmentations e s)) = Some urls"
    and "notifications (snd (generateAugmentations e s)) = notifications s"
    and "status_text (snd (generateAugmentations e s)) = ''Complete''"
    and "status_type (snd (generateAugmentations e s)) = ''success''"
    and "slots (snd (generateAugmentations e s))
           = (\<lambda>i. if i < 8 then bind_slot (elem urls i) (slots s i) else slots s i)"
proof -
  let ?b = "generateAugmentations_begin s"
  let ?t = "test_connection e (?b\<lparr>pending := pending ?b - 1\<rparr>)"
  have b: "currentImage ?b \<noteq> None" "gradioClient ?b \<noteq> None \<or> connects e"
    using assms(1,3) by (simp_all add: begin_fields)
  then have c: "gradioClient (?b\<lparr>pending := pending ?b - 1\<rparr>) \<noteq> None \<or> connects e"
    by simp
  have g: "generateAugmentations e s =
      (None, updateStatus_aug ''success'' ''Complete''
               (displayAugmentations urls (?t\<lparr>augmentationResults := Some urls\<rparr>)))"
    using finish_response[OF b(1) assms(2) b(2) assms(4)] assms(5)
    by (simp add: generateAugmentations_started[OF assms(1)])
  have n: "notifications ?t = notifications s" "slots ?t = slots s"
    using test_connection_fields(3,4)[OF c] assms(1) by (simp_all add: begin_fields)
  show "fst (generateAugmentations e s) = None" by (simp add: g)
  show "augmentationResults (snd (generateAugmentations e s)) = Some urls"
    by (simp add: g updateStatus_aug_def displayAugmentations_def showResults_def
        hideLoading_def Let_def)
  show "notifications (snd (generateAugmentations e s)) = notifications s"
    using n(1)
    by (simp add: g updateStatus_aug_def displayAugmentations_def showResults_def
        hideLoading_def Let_def)
  show "status_text (snd (generateAugmentations e s)) = ''Complete''"
    by (simp add: g updateStatus_aug_def)
  show "status_type (snd (generateAugmentations e s)) = ''success''"
    by (simp add: g updateStatus_aug_def)
  show "slots (snd (generateAugmentations e s))
           = (\<lambda>i. if i < 8 then bind_slot (elem urls i) (slots s i) else slots s i)"
    using n(2)
    by (simp add: g updateStatus_aug_def displayAugmentations_def showResults_def
        hideLoading_def Let_def cong: if_cong)
qed

lemma imageUrls_aligned:
  "n \<le> length items \<Longrightarrow> \<forall>j<n. extract_url (items ! j) \<noteq> JNull \<Longrightarrow>
     take n (imageUrls items) = map extract_url (take n items)"
proof (induction items arbitrary: n)
  case Nil
  then show ?case by (simp add: imageUrls_def)
next
  case (Cons a items)
  show ?case
  proof (cases n)
    case 0
    then show ?thesis by simp
  next
    case (Suc m)
    with Cons.prems have a: "extract_url a \<noteq> JNull" and m: "m \<le> length items"
      and rest: "\<forall>j<m. extract_url (items ! j) \<noteq> JNull"
      by auto
    from Cons.IH[OF m rest] a Suc show ?thesis
      by (simp add: imageUrls_def)
  qed
qed

lemma imageUrls_same_index:
  assumes "i < length items" and "\<forall>j\<le>i. extract_url (items ! j) \<noteq> JNull"
  shows "elem (imageUrls items) i = extract_url (items ! i)"
proof -
  have t: "take (Suc i) (imageUrls items) = map extract_url (take (Suc i) items)"
    using assms by (intro imageUrls_aligned) (auto simp: less_Suc_eq_le)
  have "length (take (Suc i) (imageUrls items)) = Suc i"
    using assms t by simp
  then have len: "i < length (imageUrls items)" by simp
  then have "imageUrls items ! i = take (Suc i) (imageUrls items) ! i" by simp
  also have "\<dots> = extract_url (items ! i)"
    using assms t by simp
  finally show ?thesis using len by (simp add: elem_def)
qed

lemma extract_url_cases:
  "extract_url (JStr u) = JStr u"
  "truthy (js_get (JObj kvs) ''url'') \<Longrightarrow> extract_url (JObj kvs) = js_get (JObj kvs) ''url''"
  "\<not> truthy (js_get (JObj kvs) ''url'') \<Longrightarrow> truthy (js_get (JObj kvs) ''path'') \<Longrightarrow>
     extract_url (JObj kvs) = js_get (JObj kvs) ''path''"
  "\<not> truthy (js_get (JObj kvs) ''url'') \<Longrightarrow> \<not> truthy (js_get (JObj kvs) ''path'') \<Longrightarrow>
     extract_url (JObj kvs) = JNull"
  "extract_url JNull = JNull" "extract_url JUndefined = JNull"
  "extract_url (JNum x) = JNull" "extract_url (JBool b) = JNull" "extract_url (JArr xs) = JNull"
  by (simp_all add: extract_url_def)

lemma five_urls:
  "imageUrls five_items = [JStr ''https://host/0.png'', JStr ''https://host/1.png'',
                            JStr ''/tmp/2.png'']"
  by (simp add: imageUrls_def five_items_def extract_url_def)


lemma selected_apage_fields:
  "currentImage selected_apage \<noteq> None" "gradioClient selected_apage = None"
  "notifications selected_apage = []" "slots selected_apage = (\<lambda>i. fresh_slot)"
  by (simp_all add: selected_apage_def processFile_aug_def isValidImageFile_def
      validTypes_aug_def scan_def fresh_apage_def updateStatus_aug_def displayImagePreview_def)

lemma service_up_fields:
  "read_ok (service_up r)" "connects (service_up r)" "predict (service_up r) = Inr r"
  by (simp_all add: service_up_def connects_def poll_now)

lemma upt8: "[0..<8] = [0, 1, 2, 3, 4, 5, 6, 7]"
  by code_simp

text \<open>
  C4, as the code has it. When the request reaches the response: it fails exactly when
  the result or its \<^verbatim>\<open>data\<close> is absent or falsy, or \<^verbatim>\<open>data\<close> is not an array, or is
  an empty array, and then with \<open>MalformedResponse\<close>. A payload whose \<^verbatim>\<open>data\<close> is an
  array of at least one item proceeds, whether or not any item is usable: the usable
  references are stored, no error is reported, and of the 8 slots those with a reference
  at their index are populated and the others are marked error.
\<close>

theorem augmentation_response_outcome:
  assumes "currentImage s \<noteq> None" and "read_ok e"
    and "gradioClient s \<noteq> None \<or> connects e" and "predict e = Inr result"
  shows "(fst (generateAugmentations e s) = None \<longleftrightarrow>
            truthy result \<and> (\<exists>items. js_get result ''data'' = JArr items \<and> items \<noteq> []))
       \<and> (fst (generateAugmentations e s) \<noteq> None \<longleftrightarrow>
            (\<exists>r. fst (generateAugmentations e s) = Some (MalformedResponse r)))
       \<and> (\<forall>items. truthy result \<and> js_get result ''data'' = JArr items \<and> items \<noteq> [] \<longrightarrow>
            augmentationResults (snd (generateAugmentations e s)) = Some (imageUrls items)
            \<and> notifications (snd (generateAugmentations e s)) = notifications s
            \<and> status_text (snd (generateAugmentations e s)) = ''Complete''
            \<and> (\<forall>i<8. truthy (elem (imageUrls items) i) \<longrightarrow>
                   img_src (slots (snd (generateAugmentations e s)) i)
                     = elem (imageUrls items) i
                   \<and> container_loading (slots (snd (generateAugmentations e s)) i))
            \<and> (\<forall>i<8. \<not> truthy (elem (imageUrls items) i) \<longrightarrow>
                   item_error (slots (snd (generateAugmentations e s)) i)
                   \<and> img_src (slots (snd (generateAugmentations e s)) i)
                       = img_src (slots s i)))"
proof -
  note o = generateAugmentations_outcome[OF assms]
  note c = interpret_augmentations_cases[of result]
  have 1: "fst (generateAugmentations e s) = None \<longleftrightarrow>
            truthy result \<and> (\<exists>items. js_get result ''data'' = JArr items \<and> items \<noteq> [])"
  proof (cases "interpret_augmentations result")
    case (Inl err)
    with o c show ?thesis by auto
  next
    case (Inr urls)
    with o c[of urls] show ?thesis by auto
  qed
  have 2: "fst (generateAugmentations e s) \<noteq> None \<longleftrightarrow>
            (\<exists>r. fst (generateAugmentations e s) = Some (MalformedResponse r))"
    using o by (auto split: sum.splits dest: interpret_augmentations_Inl)
  have 3: "augmentationResults (snd (generateAugmentations e s)) = Some (imageUrls items)
            \<and> notifications (snd (generateAugmentations e s)) = notifications s
            \<and> status_text (snd (generateAugmentations e s)) = ''Complete''
            \<and> (\<forall>i<8. truthy (elem (imageUrls items) i) \<longrightarrow>
                   img_src (slots (snd (generateAugmentations e s)) i)
                     = elem (imageUrls items) i
                   \<and> container_loading (slots (snd (generateAugmentations e s)) i))
            \<and> (\<forall>i<8. \<not> truthy (elem (imageUrls items) i) \<longrightarrow>
                   item_error (slots (snd (generateAugmentations e s)) i)
                   \<and> img_src (slots (snd (generateAugmentations e s)) i)
                       = img_src (slots s i))"
    if "truthy result" "js_get result ''data'' = JArr items" "items \<noteq> []" for items
  proof -
    from that c[of "imageUrls items"] have i: "interpret_augmentations result = Inr (imageUrls items)"
      by simp
    note g = generateAugmentations_success[OF assms i]
    show ?thesis by (simp add: g bind_slot_def)
  qed
  from 1 2 3 show ?thesis by blast
qed

theorem augmentation_response_outcome_witness:
  "fst (generateAugmentations (service_up (JObj [(''data'', JArr five_items)])) selected_apage)
     = None
   \<and> augmentationResults
       (snd (generateAugmentations (service_up (JObj [(''data'', JArr five_items)]))
               selected_apage))
     = Some [JStr ''https://host/0.png'', JStr ''https://host/1.png'', JStr ''/tmp/2.png'']
   \<and> fst (generateAugmentations (service_up (JObj [(''data'', JArr [])])) selected_apage)
     = Some (MalformedResponse (InvalidItemCount (JNum 0)))"
  using augmentation_response_outcome
      [of selected_apage "service_up (JObj [(''data'', JArr five_items)])"
          "JObj [(''data'', JArr five_items)]"]
    augmentation_response_outcome
      [of selected_apage "service_up (JObj [(''data'', JArr [])])" "JObj [(''data'', JArr [])]"]
    generateAugmentations_outcome
      [of selected_apage "service_up (JObj [(''data'', JArr [])])" "JObj [(''data'', JArr [])]"]
  by (simp add: selected_apage_fields service_up_fields five_urls interpret_augmentations_def)
     (simp add: five_items_def)

text \<open>
  C4 as the specification states it fails: a response of two \<^verbatim>\<open>null\<close> items has no
  usable item, and the request does not fail; it completes with nothing reported.
\<close>

theorem no_usable_item_proceeds:
  "imageUrls [JNull, JNull] = []
   \<and> fst (generateAugmentations (service_up (JObj [(''data'', JArr [JNull, JNull])]))
            selected_apage) = None
   \<and> notifications (snd (generateAugmentations
                            (service_up (JObj [(''data'', JArr [JNull, JNull])]))
                            selected_apage)) = []
   \<and> status_text (snd (generateAugmentations
                          (service_up (JObj [(''data'', JArr [JNull, JNull])]))
                          selected_apage)) = ''Complete''"
proof -
  have i: "interpret_augmentations (JObj [(''data'', JArr [JNull, JNull])]) = Inr []"
    by (simp add: interpret_augmentations_def imageUrls_def extract_url_def)
  note g = generateAugmentations_success
    [OF selected_apage_fields(1) service_up_fields(1) disjI2[OF service_up_fields(2)]
        service_up_fields(3) i]
  show ?thesis
    by (simp add: g selected_apage_fields) (simp add: imageUrls_def extract_url_def)
qed

text \<open>
  What the script does with a response that has an array of at least one item: it
  extracts a reference from each item (a string taken as a URL, else the \<^verbatim>\<open>url\<close>
  field, else the \<^verbatim>\<open>path\<close> field), removes the absent ones from the list, and binds
  each of the 8 slots to the entry at the slot's index in what is left. That entry is
  the reference of the item at the same index only when no item up to that index lacks
  a reference. A slot with an entry starts loading and keeps its error mark; a slot
  without one is marked error; no overall failure is raised.
\<close>

lemma slot_binding:
  assumes "currentImage s \<noteq> None" and "read_ok e"
    and "gradioClient s \<noteq> None \<or> connects e" and "predict e = Inr result"
    and "truthy result" and "js_get result ''data'' = JArr items" and "items \<noteq> []"
  shows "fst (generateAugmentations e s) = None
       \<and> notifications (snd (generateAugmentations e s)) = notifications s
       \<and> (\<forall>i<8. slots (snd (generateAugmentations e s)) i
                   = bind_slot (elem (imageUrls items) i) (slots s i))
       \<and> (\<forall>i<8. truthy (elem (imageUrls items) i) \<longrightarrow>
              img_src (slots (snd (generateAugmentations e s)) i) = elem (imageUrls items) i
              \<and> container_loading (slots (snd (generateAugmentations e s)) i)
              \<and> item_error (slots (snd (generateAugmentations e s)) i)
                  = item_error (slots s i))
       \<and> (\<forall>i<8. \<not> truthy (elem (imageUrls items) i) \<longrightarrow>
              item_error (slots (snd (generateAugmentations e s)) i)
              \<and> container_loading (slots (snd (generateAugmentations e s)) i)
                  = container_loading (slots s i)
              \<and> img_src (slots (snd (generateAugmentations e s)) i) = img_src (slots s i))
       \<and> (\<forall>i<length items. (\<forall>j\<le>i. extract_url (items ! j) \<noteq> JNull) \<longrightarrow>
              elem (imageUrls items) i = extract_url (items ! i))"
proof -
  from assms(5-7) interpret_augmentations_cases[of result "imageUrls items"]
  have i: "interpret_augmentations result = Inr (imageUrls items)" by simp
  note g = generateAugmentations_success[OF assms(1-4) i]
  show ?thesis by (simp add: g bind_slot_def imageUrls_same_index)
qed

text \<open>
  The response of length 5 with 3 usable items followed by 2 \<^verbatim>\<open>null\<close>s, rendered on
  a grid that carries no class yet: slots 0, 1, 2 load, the 5 slots from 3 to 7 are
  marked error, and no failure is raised.
\<close>

lemma five_items_rendering:
  "filter (\<lambda>i. container_loading
                  (slots (snd (generateAugmentations
                                 (service_up (JObj [(''data'', JArr five_items)]))
                                 selected_apage)) i)) [0..<8] = [0, 1, 2]
   \<and> filter (\<lambda>i. item_error
                  (slots (snd (generateAugmentations
                                 (service_up (JObj [(''data'', JArr five_items)]))
                                 selected_apage)) i)) [0..<8] = [3, 4, 5, 6, 7]
   \<and> fst (generateAugmentations (service_up (JObj [(''data'', JArr five_items)]))
            selected_apage) = None
   \<and> notifications (snd (generateAugmentations
                            (service_up (JObj [(''data'', JArr five_items)]))
                            selected_apage)) = []"
proof -
  let ?e = "service_up (JObj [(''data'', JArr five_items)])"
  let ?s = "snd (generateAugmentations ?e selected_apage)"
  have t: "truthy (JObj [(''data'', JArr five_items)])"
    "js_get (JObj [(''data'', JArr five_items)]) ''data'' = JArr five_items"
    "five_items \<noteq> []"
    by (simp_all add: five_items_def)
  note b = slot_binding
    [OF selected_apage_fields(1) service_up_fields(1) disjI2[OF service_up_fields(2)]
        service_up_fields(3) t]
  from b have f: "fst (generateAugmentations ?e selected_apage) = None"
    and n: "notifications ?s = notifications selected_apage"
    and sl: "\<forall>i<8. slots ?s i = bind_slot (elem (imageUrls five_items) i) (slots selected_apage i)"
    by blast+
  have k: "slots ?s i = bind_slot (elem (imageUrls five_items) i) fresh_slot" if "i < 8" for i
    using sl that by (simp add: selected_apage_fields)
  have "map (\<lambda>i. (container_loading (slots ?s i), item_error (slots ?s i))) [0..<8]
          = [(True, False), (True, False), (True, False), (False, True), (False, True),
             (False, True), (False, True), (False, True)]"
    by (simp add: upt8 k five_urls bind_slot_def elem_def fresh_slot_def)
  then have "filter (\<lambda>i. container_loading (slots ?s i)) [0..<8] = [0, 1, 2]"
    and "filter (\<lambda>i. item_error (slots ?s i)) [0..<8] = [3, 4, 5, 6, 7]"
    by (simp_all add: upt8)
  with f n show ?thesis by (simp add: selected_apage_fields)
qed

lemma test_connection_rest:
  "augmentationResults (test_connection e s) = augmentationResults s"
  "download_listeners (test_connection e s) = download_listeners s"
  "downloads (test_connection e s) = downloads s"
  "timers (test_connection e s) = timers s"
  by (simp_all add: test_connection_def initializeGradioClient_aug_def updateStatus_aug_def
      showError_aug_def Let_def)

lemma begin_rest:
  assumes "currentImage s \<noteq> None"
  shows "download_listeners (generateAugmentations_begin s) = download_listeners s"
    and "downloads (generateAugmentations_begin s) = downloads s"
    and "timers (generateAugmentations_begin s) = timers s"
  using assms
  by (auto simp: generateAugmentations_begin_def updateStatus_aug_def showLoading_def)

lemma generateAugmentations_success_rest:
  assumes "currentImage s \<noteq> None" and "read_ok e"
    and "gradioClient s \<noteq> None \<or> connects e" and "predict e = Inr result"
    and "interpret_augmentations result = Inr urls"
  shows "currentImage (snd (generateAugmentations e s)) = currentImage s"
    and "gradioClient (snd (generateAugmentations e s)) \<noteq> None"
    and "download_listeners (snd (generateAugmentations e s)) = Suc (download_listeners s)"
    and "downloads (snd (generateAugmentations e s)) = downloads s"
    and "timers (snd (generateAugmentations e s)) = timers s"
proof -
  let ?b = "generateAugmentations_begin s"
  let ?t = "test_connection e (?b\<lparr>pending := pending ?b - 1\<rparr>)"
  have b: "currentImage ?b \<noteq> None" "gradioClient ?b \<noteq> None \<or> connects e"
    using assms(1,3) by (simp_all add: begin_fields)
  then have c: "gradioClient (?b\<lparr>pending := pending ?b - 1\<rparr>) \<noteq> None \<or> connects e"
    by simp
  have g: "generateAugmentations e s =
      (None, updateStatus_aug ''success'' ''Complete''
               (displayAugmentations urls (?t\<lparr>augmentationResults := Some urls\<rparr>)))"
    using finish_response[OF b(1) assms(2) b(2) assms(4)] assms(5)
    by (simp add: generateAugmentations_started[OF assms(1)])
  have n: "currentImage ?t = currentImage s" "gradioClient ?t \<noteq> None"
    using test_connection_fields(1,2)[OF c] assms(1) by (simp_all add: begin_fields)
  have r: "download_listeners ?t = download_listeners s" "downloads ?t = downloads s"
    "timers ?t = timers s"
    using assms(1) by (simp_all add: test_connection_rest begin_rest)
  show "currentImage (snd (generateAugmentations e s)) = currentImage s"
    using n(1)
    by (simp add: g updateStatus_aug_def displayAugmentations_def showResults_def
        hideLoading_def Let_def)
  show "gradioClient (snd (generateAugmentations e s)) \<noteq> None"
    using n(2)
    by (simp add: g updateStatus_aug_def displayAugmentations_def showResults_def
        hideLoading_def Let_def)
  show "download_listeners (snd (generateAugmentations e s)) = Suc (download_listeners s)"
    using r(1)
    by (simp add: g updateStatus_aug_def displayAugmentations_def showResults_def
        hideLoading_def Let_def)
  show "downloads (snd (generateAugmentations e s)) = downloads s"
    using r(2)
    by (simp add: g updateStatus_aug_def displayAugmentations_def showResults_def
        hideLoading_def Let_def)
  show "timers (snd (generateAugmentations e s)) = timers s"
    using r(3)
    by (simp add: g updateStatus_aug_def displayAugmentations_def showResults_def
        hideLoading_def Let_def)
qed

lemma selected_apage_rest:
  "download_listeners selected_apage = 0" "downloads selected_apage = []"
  "timers selected_apage = []"
  by (simp_all add: selected_apage_def processFile_aug_def isValidImageFile_def
      validTypes_aug_def scan_def fresh_apage_def updateStatus_aug_def displayImagePreview_def)

lemma null_first_urls:
  "interpret_augmentations null_first = Inr [JStr ''https://host/1.png'']"
  by (simp add: null_first_def interpret_augmentations_def imageUrls_def extract_url_def)

lemma shifted_apage_fields:
  "augmentationResults shifted_apage = Some [JStr ''https://host/1.png'']"
  "slots shifted_apage
     = (\<lambda>i. if i < 8 then bind_slot (elem [JStr ''https://host/1.png''] i) fresh_slot
            else fresh_slot)"
  "download_listeners shifted_apage = 1" "downloads shifted_apage = []"
  "timers shifted_apage = []"
proof -
  note g = generateAugmentations_success
    [OF selected_apage_fields(1) service_up_fields(1) disjI2[OF service_up_fields(2)]
        service_up_fields(3) null_first_urls]
  note h = generateAugmentations_success_rest
    [OF selected_apage_fields(1) service_up_fields(1) disjI2[OF service_up_fields(2)]
        service_up_fields(3) null_first_urls]
  show "augmentationResults shifted_apage = Some [JStr ''https://host/1.png'']"
    by (simp add: shifted_apage_def g(2))
  show "slots shifted_apage
     = (\<lambda>i. if i < 8 then bind_slot (elem [JStr ''https://host/1.png''] i) fresh_slot
            else fresh_slot)"
    by (simp add: shifted_apage_def g(6) selected_apage_fields cong: if_cong)
  show "download_listeners shifted_apage = 1" "downloads shifted_apage = []"
    "timers shifted_apage = []"
    by (simp_all add: shifted_apage_def h selected_apage_rest)
qed

lemma all_null_apage_fields:
  "currentImage all_null_apage \<noteq> None" "gradioClient all_null_apage \<noteq> None"
  "slots all_null_apage = (\<lambda>i. if i < 8 then fresh_slot\<lparr>item_error := True\<rparr> else fresh_slot)"
proof -
  have i: "interpret_augmentations (JObj [(''data'', JArr [JNull])]) = Inr []"
    by (simp add: interpret_augmentations_def imageUrls_def extract_url_def)
  note g = generateAugmentations_success
    [OF selected_apage_fields(1) service_up_fields(1) disjI2[OF service_up_fields(2)]
        service_up_fields(3) i]
  note h = generateAugmentations_success_rest
    [OF selected_apage_fields(1) service_up_fields(1) disjI2[OF service_up_fields(2)]
        service_up_fields(3) i]
  show "currentImage all_null_apage \<noteq> None" "gradioClient all_null_apage \<noteq> None"
    by (simp_all add: all_null_apage_def h selected_apage_fields)
  show "slots all_null_apage
          = (\<lambda>i. if i < 8 then fresh_slot\<lparr>item_error := True\<rparr> else fresh_slot)"
    by (simp add: all_null_apage_def g(6) selected_apage_fields bind_slot_def elem_def
        cong: if_cong)
qed

lemma rerender_slots:
  "slots (snd (generateAugmentations (service_up (JObj [(''data'', JArr five_items)]))
                 all_null_apage))
     = (\<lambda>i. if i < 8 then bind_slot (elem (imageUrls five_items) i) (slots all_null_apage i)
            else slots all_null_apage i)"
proof -
  have i: "interpret_augmentations (JObj [(''data'', JArr five_items)])
             = Inr (imageUrls five_items)"
    by (simp add: interpret_augmentations_def five_items_def)
  show ?thesis
    by (rule generateAugmentations_success(6)
        [OF all_null_apage_fields(1) service_up_fields(1) disjI1[OF all_null_apage_fields(2)]
            service_up_fields(3) i])
qed

text \<open>
  C3 fails on the code. The 8 slots are positional (\<^verbatim>\<open>imageElements\<close>, \<^verbatim>\<open>types\<close>),
  and \<^verbatim>\<open>displayAugmentations\<close> tests the entry at each slot's index; but
  \<^verbatim>\<open>generateAugmentations\<close> has removed the absent references from the list by then, so
  that every reference after an absent one moves to an earlier slot. In the response
  \<^verbatim>\<open>[null, "https://host/1.png"]\<close> the item at index 0 has no reference and the item
  at index 1 has one: slot 0, the original image, shows the reference of the item at
  index 1 and is not marked error; slot 1 is marked error; and the download button of
  slot 0 and Download All save that reference as the type \<^verbatim>\<open>original\<close>. The marks
  of an earlier rendering stay, too: once the response \<^verbatim>\<open>[null]\<close> has marked all 8
  slots error, the response of length 5 with 3 usable items leaves all 8 slots marked
  error.
\<close>

theorem null_item_shifts_slots:
  "map extract_url [JNull, JStr ''https://host/1.png''] = [JNull, JStr ''https://host/1.png'']
   \<and> map (\<lambda>i. img_src (slots shifted_apage i)) [0, 1]
       = [JStr ''https://host/1.png'', JStr []]
   \<and> map (\<lambda>i. item_error (slots shifted_apage i)) [0, 1] = [False, True]
   \<and> map (\<lambda>i. container_loading (slots shifted_apage i)) [0, 1] = [True, False]
   \<and> downloads (arun [ClickDownload 0 (JStr ''original'') 7] shifted_apage)
       = [\<lparr>href = JStr ''https://host/1.png'', download_type = JStr ''original'', stamp = 7\<rparr>]
   \<and> downloads (arun [ClickDownload 1 (JStr ''rotation'') 7] shifted_apage) = []
   \<and> downloads (arun [ClickDownloadAll, TimerFires 0 7] shifted_apage)
       = [\<lparr>href = JStr ''https://host/1.png'', download_type = JStr ''original'', stamp = 7\<rparr>]
   \<and> filter (\<lambda>i. item_error
                  (slots (snd (generateAugmentations
                                 (service_up (JObj [(''data'', JArr five_items)]))
                                 all_null_apage)) i)) [0..<8] = [0, 1, 2, 3, 4, 5, 6, 7]"
proof -
  have 1: "map extract_url [JNull, JStr ''https://host/1.png'']
             = [JNull, JStr ''https://host/1.png'']"
    by (simp add: extract_url_def)
  have 2: "map (\<lambda>i. img_src (slots shifted_apage i)) [0, 1]
             = [JStr ''https://host/1.png'', JStr []]"
    "map (\<lambda>i. item_error (slots shifted_apage i)) [0, 1] = [False, True]"
    "map (\<lambda>i. container_loading (slots shifted_apage i)) [0, 1] = [True, False]"
    by (simp_all add: shifted_apage_fields(2) bind_slot_def elem_def fresh_slot_def)
  have 3: "downloads (arun [ClickDownload 0 (JStr ''original'') 7] shifted_apage)
       = [\<lparr>href = JStr ''https://host/1.png'', download_type = JStr ''original'', stamp = 7\<rparr>]"
    "downloads (arun [ClickDownload 1 (JStr ''rotation'') 7] shifted_apage) = []"
    by (simp_all add: arun_def astep_def click_download_def download_listener_def
        downloadImage_def elem_def shifted_apage_fields)
  have 4: "downloads (arun [ClickDownloadAll, TimerFires 0 7] shifted_apage)
       = [\<lparr>href = JStr ''https://host/1.png'', download_type = JStr ''original'', stamp = 7\<rparr>]"
    by (simp add: arun_def astep_def downloadAll_def scheduled_def fire_timer_def
        timer_callback_def downloadImage_def elem_def type_at_def types_def
        shifted_apage_fields)
  have 5: "filter (\<lambda>i. item_error
                  (slots (snd (generateAugmentations
                                 (service_up (JObj [(''data'', JArr five_items)]))
                                 all_null_apage)) i)) [0..<8] = [0, 1, 2, 3, 4, 5, 6, 7]"
    by (simp add: rerender_slots upt8 all_null_apage_fields(3) bind_slot_def five_urls
        elem_def fresh_slot_def)
  from 1 2 3 4 5 show ?thesis by blast
qed

section \<open>Properties of the downloads\<close>

lemma downloadImage_falsy: "\<not> truthy imageUrl \<Longrightarrow> downloadImage imageUrl type now s = s"
  by (simp add: downloadImage_def)

lemma downloadImage_fields:
  "augmentationResults (downloadImage u ty now s) = augmentationResults s"
  "set (downloads (downloadImage u ty now s))
     \<subseteq> set (downloads s) \<union> {d. href d = u \<and> truthy u}"
  by (auto simp: downloadImage_def)

lemma download_listener_fields:
  "augmentationResults (download_listener i ty now s) = augmentationResults s"
  "set (downloads (download_listener i ty now s))
     \<subseteq> set (downloads s)
       \<union> {d. \<exists>rs. augmentationResults s = Some rs \<and> href d = elem rs i \<and> truthy (elem rs i)}"
  by (auto simp: download_listener_def downloadImage_def split: option.splits)

lemma download_listener_noop:
  "augmentationResults s = None \<or> (\<exists>rs. augmentationResults s = Some rs \<and> \<not> truthy (elem rs i))
     \<Longrightarrow> download_listener i ty now s = s"
  by (auto simp: download_listener_def)

lemma listeners_fields:
  "augmentationResults ((download_listener i ty now ^^ n) s) = augmentationResults s
   \<and> set (downloads ((download_listener i ty now ^^ n) s))
     \<subseteq> set (downloads s)
       \<union> {d. \<exists>rs. augmentationResults s = Some rs \<and> href d = elem rs i \<and> truthy (elem rs i)}"
proof (induction n)
  case 0
  show ?case by simp
next
  case (Suc n)
  let ?t = "(download_listener i ty now ^^ n) s"
  from Suc have r: "augmentationResults ?t = augmentationResults s" by simp
  from download_listener_fields(2)[of i ty now ?t] Suc r
  show ?case by (auto simp: download_listener_fields(1))
qed

lemma listeners_noop:
  "download_listener i ty now s = s \<Longrightarrow> (download_listener i ty now ^^ n) s = s"
  by (induction n) simp_all

lemma click_download_noop:
  "augmentationResults s = None \<or> (\<exists>rs. augmentationResults s = Some rs \<and> \<not> truthy (elem rs i))
     \<Longrightarrow> click_download i ty now s = s"
  unfolding click_download_def by (intro listeners_noop download_listener_noop)

lemma scheduled_iff: "i \<in> set (scheduled rs) \<longleftrightarrow> i < length rs \<and> truthy (elem rs i)"
  by (auto simp: scheduled_def)

lemma downloadAll_cases:
  "augmentationResults s = None \<Longrightarrow> downloadAll s = s"
  "augmentationResults s = Some rs \<Longrightarrow>
     downloadAll s = s\<lparr>timers := timers s @ map (\<lambda>i. (i * 200, i)) (scheduled rs)\<rparr>"
  by (simp_all add: downloadAll_def)

lemma astep_downloads:
  "set (downloads (astep ev s)) \<subseteq> set (downloads s) \<union> stored s"
proof (cases ev)
  case (ASelectFile f)
  then show ?thesis
    by (auto simp: astep_def processFile_aug_def showError_aug_def updateStatus_aug_def
        displayImagePreview_def)
next
  case AClearImage
  then show ?thesis
    by (auto simp: astep_def clearImage_def hideResults_def updateStatus_aug_def)
next
  case ClickAugment
  then show ?thesis
    by (auto simp: astep_def generateAugmentations_begin_def showError_aug_def
        updateStatus_aug_def showLoading_def)
next
  case PressEnter
  then show ?thesis
    by (auto simp: astep_def generateAugmentations_begin_def showError_aug_def
        updateStatus_aug_def showLoading_def)
next
  case (ASettle e)
  have "downloads (test_connection e t) = downloads t" for t :: "'a apage_scheme"
    by (simp add: test_connection_def initializeGradioClient_aug_def updateStatus_aug_def
        showError_aug_def Let_def)
  then have "downloads (snd (generateAugmentations_finish e s)) = downloads s"
    by (simp add: generateAugmentations_finish_def Let_def augmentation_failed_def
        showError_aug_def updateStatus_aug_def displayAugmentations_def showResults_def
        hideLoading_def split: sum.splits)
  with ASettle show ?thesis by (auto simp: astep_def)
next
  case (ImageLoaded i)
  then show ?thesis by (auto simp: astep_def img_onload_def)
next
  case (ImageFailed i)
  then show ?thesis by (auto simp: astep_def img_onerror_def)
next
  case (ClickDownload i ty now)
  have "{d. \<exists>rs. augmentationResults s = Some rs \<and> href d = elem rs i \<and> truthy (elem rs i)}
          \<subseteq> stored s"
    unfolding stored_def by blast
  with listeners_fields[where i=i and ty=ty and now=now and n="download_listeners s" and s=s]
  have "set (downloads ((download_listener i ty now ^^ download_listeners s) s))
          \<subseteq> set (downloads s) \<union> stored s"
    by blast
  with ClickDownload show ?thesis
    by (simp add: astep_def click_download_def)
next
  case ClickDownloadAll
  then show ?thesis by (auto simp: astep_def downloadAll_def split: option.splits)
next
  case (TimerFires k now)
  then show ?thesis
    by (auto simp: astep_def fire_timer_def timer_callback_def downloadImage_def stored_def
        split: option.splits)
qed

lemma arun_snoc: "arun (evs @ [ev]) s = astep ev (arun evs s)"
  by (simp add: arun_def)

lemma arun_downloads:
  "(\<forall>d \<in> set (downloads s). truthy (href d)) \<Longrightarrow>
     (\<forall>d \<in> set (downloads (arun evs s)). truthy (href d))"
proof (induction evs rule: rev_induct)
  case Nil
  then show ?case by (simp add: arun_def)
next
  case (snoc ev evs)
  have st: "stored (arun evs s) \<subseteq> {d. truthy (href d)}"
    by (auto simp: stored_def)
  from snoc have old: "set (downloads (arun evs s)) \<subseteq> {d. truthy (href d)}"
    by auto
  from astep_downloads[of ev "arun evs s"] st old
  have "set (downloads (astep ev (arun evs s))) \<subseteq> {d. truthy (href d)}"
    by blast
  then show ?case by (auto simp: arun_snoc)
qed

text \<open>
  C10. \<^verbatim>\<open>downloadImage\<close> changes nothing when its URL is falsy (null, undefined,
  empty). A click on a download button changes nothing when no results are stored or the
  stored entry at its index is falsy. \<^verbatim>\<open>downloadAll\<close> changes nothing when no results
  are stored, and otherwise schedules a timer exactly for the indices with a truthy
  entry, 200 ms apart. Every download that any event of the page starts is for a truthy
  entry of the stored results, so that, over any sequence of events, no download is ever
  started without a reference.
\<close>

theorem downloads_need_reference:
  "(\<not> truthy imageUrl \<longrightarrow> downloadImage imageUrl type now s = s)
   \<and> (augmentationResults s = None
        \<or> (\<exists>rs. augmentationResults s = Some rs \<and> \<not> truthy (elem rs index))
       \<longrightarrow> click_download index type now s = s)
   \<and> (augmentationResults s = None \<longrightarrow> downloadAll s = s)
   \<and> (\<forall>rs. augmentationResults s = Some rs \<longrightarrow>
        downloadAll s = s\<lparr>timers := timers s @ map (\<lambda>i. (i * 200, i)) (scheduled rs)\<rparr>
        \<and> (\<forall>i. i \<in> set (scheduled rs) \<longleftrightarrow> i < length rs \<and> truthy (elem rs i)))
   \<and> (\<forall>ev d. d \<in> set (downloads (astep ev s)) \<longrightarrow>
          d \<in> set (downloads s)
          \<or> (\<exists>rs i. augmentationResults s = Some rs \<and> href d = elem rs i
                    \<and> truthy (elem rs i)))
   \<and> ((\<forall>d \<in> set (downloads s). truthy (href d)) \<longrightarrow>
        (\<forall>d \<in> set (downloads (arun evs s)). truthy (href d)))"
proof -
  have a: "\<not> truthy imageUrl \<longrightarrow> downloadImage imageUrl type now s = s"
    by (simp add: downloadImage_falsy)
  have b: "augmentationResults s = None
        \<or> (\<exists>rs. augmentationResults s = Some rs \<and> \<not> truthy (elem rs index))
       \<longrightarrow> click_download index type now s = s"
    using click_download_noop[of s index type now] by blast
  have c: "augmentationResults s = None \<longrightarrow> downloadAll s = s"
    by (simp add: downloadAll_cases)
  have d: "\<forall>rs. augmentationResults s = Some rs \<longrightarrow>
        downloadAll s = s\<lparr>timers := timers s @ map (\<lambda>i. (i * 200, i)) (scheduled rs)\<rparr>
        \<and> (\<forall>i. i \<in> set (scheduled rs) \<longleftrightarrow> i < length rs \<and> truthy (elem rs i))"
    by (simp add: downloadAll_cases scheduled_iff)
  have e: "\<forall>ev d. d \<in> set (downloads (astep ev s)) \<longrightarrow>
          d \<in> set (downloads s)
          \<or> (\<exists>rs i. augmentationResults s = Some rs \<and> href d = elem rs i
                    \<and> truthy (elem rs i))"
    using astep_downloads[of _ s] unfolding stored_def by blast
  have f: "(\<forall>d \<in> set (downloads s). truthy (href d)) \<longrightarrow>
        (\<forall>d \<in> set (downloads (arun evs s)). truthy (href d))"
    using arun_downloads[of s evs] by blast
  from a b c d e f show ?thesis by blast
qed


theorem downloads_need_reference_witness:
  "downloadImage JNull (JStr ''zoom'') 7 rendered_apage = rendered_apage
   \<and> click_download 1 (JStr ''rotation'') 7 rendered_apage = rendered_apage
   \<and> click_download 5 (JStr ''zoom'') 7 rendered_apage = rendered_apage
   \<and> timers (downloadAll rendered_apage) = [(0, 0)]
   \<and> downloads (arun [ClickDownloadAll, TimerFires 0 7, ClickDownload 1 (JStr ''rotation'') 9]
                  rendered_apage)
       = [\<lparr>href = JStr ''https://host/0.png'', download_type = JStr ''original'', stamp = 7\<rparr>]"
  using downloads_need_reference [of JNull "JStr ''zoom''" 7 rendered_apage 1]
    downloads_need_reference [of JNull "JStr ''zoom''" 7 rendered_apage 5]
  by (simp add: rendered_apage_def fresh_apage_def elem_def scheduled_def arun_def astep_def
      downloadAll_def fire_timer_def timer_callback_def downloadImage_def type_at_def
      types_def click_download_def download_listener_def)

text \<open>
  The guards are on the stored reference, not on the state of the image: a slot whose
  image failed to load keeps its reference, and its button still starts a download.
\<close>

lemma load_failure_keeps_reference:
  "item_error
     (slots (arun [ImageFailed 0]
               (displayAugmentations [JStr ''https://host/0.png'']
                  (fresh_apage\<lparr>augmentationResults := Some [JStr ''https://host/0.png'']\<rparr>))) 0)
   \<and> downloads
       (arun [ImageFailed 0, ClickDownload 0 (JStr ''original'') 7]
          (displayAugmentations [JStr ''https://host/0.png'']
             (fresh_apage\<lparr>augmentationResults := Some [JStr ''https://host/0.png'']\<rparr>)))
     = [\<lparr>href = JStr ''https://host/0.png'', download_type = JStr ''original'', stamp = 7\<rparr>]"
  by (simp add: arun_def astep_def img_onerror_def displayAugmentations_def showResults_def
      hideLoading_def bind_slot_def elem_def fresh_apage_def fresh_slot_def Let_def
      click_download_def download_listener_def downloadImage_def)

section \<open>Properties of a suspended request\<close>

text \<open>
  A request that was started with the client connected has read its image within the
  turn of the click: what it does with the response does not depend on what is selected
  when the response arrives.
\<close>

lemma connected_request_reads_at_click:
  assumes "gradioClient s \<noteq> None" and "read_ok e" and "predict e = Inr result"
  shows "fst (generateAugmentations_finish e s)
           = (case interpret_augmentations result of Inl err \<Rightarrow> Some err | Inr urls \<Rightarrow> None)"
  using assms
  by (auto simp: generateAugmentations_finish_def test_connection_def request_aug_def Let_def
      split: sum.splits)

text \<open>
  On the page that shows the sample result: the user clicks Analyze, then clears the
  selection, then the sample response arrives. The response is rendered, with no image
  selected.
\<close>

lemma cleared_request_is_rendered:
  "map_option (\<lambda>s. (currentImage s, pending s, resultsContent_display s, resultClass s,
                     status_text s, notifications s))
     (crun [ClickAnalyze, ClearImage,
            Settle (service_up (JObj [(''data'', JArr [sample_result])]))] shown_cpage)
     = Some (None, 0, ''block'', ''Normal'', ''Analysis complete'', [])"
  by (simp add: cstep_def analyzeImage_begin_def analyzeImage_finish_def
      clearImageSelection_def showEmptyState_def
      shown_cpage_def fresh_cpage_def scan_def
      updateStatus_def showLoadingState_def
      ensureGradioConnection_def
      service_up_def request_def interpret_response_def elem_def Let_def
      sample_displayResults)
     (simp add: sample_result_def sample_probabilities_def)

end
